theory Spec2Isabelle
  imports Complex_Main "HOL-Library.AList" "HOL-Library.Monad_Syntax"
begin

section \<open>The thumbnail composer of \<^verbatim>\<open>src/App.tsx\<close>\<close>

text \<open>
  The component \<^verbatim>\<open>App\<close> keeps a scene (canvas size, background, border, date stamp,
  layers), a selection, a cache of decoded images and a list of templates in React state,
  a drag record in a ref, and the templates in \<^verbatim>\<open>localStorage\<close>.

  Conventions of the embedding.
  \<^item> A JavaScript number is a finite IEEE double, written as the \<^typ>\<open>real\<close> it denotes.  An
    arithmetic operation of the source gives the double nearest to the exact result: the
    parameter \<open>rnd\<close> of every function that computes stands for that rounding, and nothing
    is assumed of it unless a statement says so.  Comparisons are exact.  Where the code
    can produce a number that is not finite, the model says so with an option.
  \<^item> An interface is a record, the union \<^verbatim>\<open>TextLayer | ImageLayer\<close> a datatype.  Field
    names that several interfaces share are written qualified (\<open>ImageLayer.width\<close>).
  \<^item> A handler reads the state of the render it was created in and calls state setters.
    It is a function from that snapshot to the list of its calls, in order; the calls are
    applied to the state after the handler has run (\<open>dispatch\<close>).
  \<^item> \<^verbatim>\<open>addLayer\<close>, \<^verbatim>\<open>handleDownload\<close>, the effect that decodes images and the controls for
    canvas size, border and date are not embedded: no property below depends on them.  The
    cache of decoded images is a component of the state, with any content.
\<close>

subsection \<open>Types (lines 10--18)\<close>

record CanvasSize =
  width :: real
  height :: real

record BorderOptions =
  color :: string
  width :: real
  enabled :: bool

record DateOptions =
  enabled :: bool

record BaseLayer =
  x :: real
  y :: real

record TextLayer = BaseLayer +
  content :: string
  fontSize :: real
  fontFamily :: string
  fontWeight :: string
  color :: string
  strokeColor :: string
  strokeWidth :: real
  shadowColor :: string
  shadowBlur :: real
  shadowOffsetX :: real
  shadowOffsetY :: real
  shadowEnabled :: bool

record ImageLayer = BaseLayer +
  src :: string
  width :: real
  height :: real

text \<open>The field \<^verbatim>\<open>type\<close> of a layer is the constructor.\<close>

datatype Layer = Text TextLayer | Image ImageLayer

record Template =
  name :: string
  layers :: "Layer list"
  canvasSize :: CanvasSize
  backgroundColor :: string
  borderOptions :: BorderOptions
  dateOptions :: DateOptions

record DragInfo =
  isDragging :: bool
  targetIndex :: "nat option"
  startX :: real
  startY :: real

text \<open>The rounding of an exact result to a double.\<close>

type_synonym rounding = "real \<Rightarrow> real"

text \<open>A value handed to a parameter of type \<^verbatim>\<open>any\<close>.\<close>

datatype js_value = Num real | Str string | Bool bool

subsection \<open>The platform: decoded images, the canvas element, storage\<close>

datatype HTMLImageElement = HTMLImageElement (img_src: string) (img_width: real) (img_height: real)

record DOMRect =
  left :: real
  top :: real
  width :: real
  height :: real

record HTMLCanvasElement =
  width :: real
  height :: real
  boundingClientRect :: DOMRect

record MouseEvent =
  clientX :: real
  clientY :: real

text \<open>
  What a string kept in \<^verbatim>\<open>localStorage\<close> is to \<^verbatim>\<open>JSON.parse\<close>.  \<open>Stringified ts\<close> is the
  text \<^verbatim>\<open>JSON.stringify\<close> writes for the template array \<open>ts\<close> (and every text that parses
  to that array); \<open>OtherJSON\<close> is a text that parses to a value that is no template array;
  \<open>Malformed\<close> is a non-empty text that \<^verbatim>\<open>JSON.parse\<close> rejects.  That parsing inverts
  stringifying on records of strings, finite numbers, booleans and arrays is a property of
  the platform, built into this type.
\<close>

datatype stored_text = Stringified "Template list" | OtherJSON | EmptyString | Malformed

datatype json = Templates "Template list" | Other

datatype exn = SyntaxError

definition JSON_stringify :: "Template list \<Rightarrow> stored_text" where
  "JSON_stringify ts = Stringified ts"

fun JSON_parse :: "stored_text \<Rightarrow> exn + json" where
  "JSON_parse (Stringified ts) = Inr (Templates ts)"
| "JSON_parse OtherJSON = Inr Other"
| "JSON_parse EmptyString = Inl SyntaxError"
| "JSON_parse Malformed = Inl SyntaxError"

text \<open>\<^verbatim>\<open>a || b\<close> on a string or \<^verbatim>\<open>null\<close>: the empty string and \<^verbatim>\<open>null\<close> are falsy.\<close>

fun or_else :: "stored_text option \<Rightarrow> stored_text \<Rightarrow> stored_text" where
  "or_else None d = d"
| "or_else (Some EmptyString) d = d"
| "or_else (Some t) d = t"

subsection \<open>State of the component (lines 39--57)\<close>

record App =
  canvasSize :: CanvasSize
  backgroundColor :: string
  backgroundImage :: "string option"
  borderOptions :: BorderOptions
  dateOptions :: DateOptions
  layers :: "Layer list"
  selectedLayerIndex :: "nat option"
  imageObjects :: "string \<rightharpoonup> HTMLImageElement"
  templates :: "Template list"
  dragInfo :: DragInfo
  localStorage :: "string \<rightharpoonup> stored_text"

text \<open>
  The default layer's \<^verbatim>\<open>content\<close> is a Korean phrase in the source; it is written here by
  an ASCII stand-in, since no function of the component looks inside the string.  The
  quotients \<^verbatim>\<open>1280 / 2\<close> and \<^verbatim>\<open>720 / 2\<close> are the doubles 640 and 360.
\<close>

definition defaultLayer :: TextLayer where
  "defaultLayer =
     \<lparr>x = 1280 / 2, y = 720 / 2, content = ''Enter your text'',
      fontSize = 80, fontFamily = ''Gmarket Sans'', fontWeight = ''bold'',
      TextLayer.color = ''#FFFFFF'', strokeColor = ''#000000'', strokeWidth = 6,
      shadowColor = ''rgba(0,0,0,0.5)'', shadowBlur = 10, shadowOffsetX = 5,
      shadowOffsetY = 5, shadowEnabled = True\<rparr>"

definition noDrag :: DragInfo where
  "noDrag = \<lparr>isDragging = False, targetIndex = None, startX = 0, startY = 0\<rparr>"

text \<open>The state of a fresh mount over a given storage.\<close>

definition initialApp :: "(string \<rightharpoonup> stored_text) \<Rightarrow> App" where
  "initialApp storage =
     \<lparr>App.canvasSize = \<lparr>CanvasSize.width = 1280, height = 720\<rparr>,
      backgroundColor = ''#1a1a1a'',
      backgroundImage = None,
      borderOptions = \<lparr>BorderOptions.color = ''#000000'', width = 20, enabled = True\<rparr>,
      dateOptions = \<lparr>DateOptions.enabled = True\<rparr>,
      layers = [Text defaultLayer],
      selectedLayerIndex = Some 0,
      imageObjects = Map.empty,
      templates = [],
      dragInfo = noDrag,
      localStorage = storage\<rparr>"

definition selectedLayer :: "App \<Rightarrow> Layer option" where
  "selectedLayer s =
     (case selectedLayerIndex s of
        None \<Rightarrow> None
      | Some i \<Rightarrow> if i < length (layers s) then Some (layers s ! i) else None)"

subsection \<open>Setter calls and their application\<close>

datatype effect =
    SetCanvasSize CanvasSize
  | SetBackgroundColor string
  | SetBackgroundImage "string option"
  | SetBorderOptions BorderOptions
  | SetDateOptions DateOptions
  | SetLayers "Layer list"
  | SetSelectedLayerIndex "nat option"
  | SetTemplates "Template list"
  | SetDragInfo DragInfo
  | SetItem string stored_text
  | Alert string
  | ConsoleError string

fun apply_effect :: "effect \<Rightarrow> App \<Rightarrow> App" where
  "apply_effect (SetCanvasSize v) s = s\<lparr>App.canvasSize := v\<rparr>"
| "apply_effect (SetBackgroundColor v) s = s\<lparr>App.backgroundColor := v\<rparr>"
| "apply_effect (SetBackgroundImage v) s = s\<lparr>backgroundImage := v\<rparr>"
| "apply_effect (SetBorderOptions v) s = s\<lparr>App.borderOptions := v\<rparr>"
| "apply_effect (SetDateOptions v) s = s\<lparr>App.dateOptions := v\<rparr>"
| "apply_effect (SetLayers v) s = s\<lparr>App.layers := v\<rparr>"
| "apply_effect (SetSelectedLayerIndex v) s = s\<lparr>selectedLayerIndex := v\<rparr>"
| "apply_effect (SetTemplates v) s = s\<lparr>templates := v\<rparr>"
| "apply_effect (SetDragInfo v) s = s\<lparr>dragInfo := v\<rparr>"
| "apply_effect (SetItem k v) s = s\<lparr>localStorage := (localStorage s)(k \<mapsto> v)\<rparr>"
| "apply_effect (Alert m) s = s"
| "apply_effect (ConsoleError m) s = s"

text \<open>
  A setter called with a value replaces the state variable; a later call in the same
  handler overrides an earlier one on the same variable.  The handler itself computed every
  value from the snapshot \<open>s\<close>.
\<close>

definition run :: "effect list \<Rightarrow> App \<Rightarrow> App" where
  "run es s = fold apply_effect es s"

definition dispatch :: "(App \<Rightarrow> effect list) \<Rightarrow> App \<Rightarrow> App" where
  "dispatch handler s = run (handler s) s"

text \<open>
  \<open>SetDragInfo\<close> is the assignment to \<^verbatim>\<open>dragInfo.current\<close>, a ref and no state variable:
  it takes effect at once.  No handler reads the ref after writing it, so listing the
  assignment among the setter calls changes nothing.
\<close>

subsection \<open>Template store (lines 63--71 and 258--281)\<close>

definition storageKey :: string where
  "storageKey = ''thumbnailer_templates''"

text \<open>
  Where the program leaves the model.  A value can leave its declared TypeScript type (the
  cast \<^verbatim>\<open>as Template[]\<close> checks nothing, and neither does a parameter of type
  \<^verbatim>\<open>any\<close>), and a division by zero gives a number that is not finite.  The typed model
  follows the program no further and returns the fact.
\<close>

type_synonym obj = "(string \<times> js_value) list"

datatype off_model = NotTemplates | NotALayer obj | NotFinite

text \<open>The mount effect that reads the templates.\<close>

definition loadTemplates :: "App \<Rightarrow> off_model + effect list" where
  "loadTemplates s =
     (case JSON_parse (or_else (localStorage s storageKey) (Stringified [])) of
        Inr (Templates savedTemplates) \<Rightarrow> Inr [SetTemplates savedTemplates]
      | Inr Other \<Rightarrow> Inl NotTemplates
      | Inl SyntaxError \<Rightarrow>
          Inr [ConsoleError ''Failed to parse templates from localStorage'', SetTemplates []])"

text \<open>\<open>prompted\<close> is what \<^verbatim>\<open>prompt\<close> returned: \<open>None\<close> when the user cancelled.\<close>

definition saveTemplate :: "string option \<Rightarrow> App \<Rightarrow> effect list" where
  "saveTemplate prompted s =
     (case prompted of
        None \<Rightarrow> []
      | Some nm \<Rightarrow>
          if nm = [] then []
          else
            let templateData =
                  \<lparr>Template.name = nm, layers = layers s, canvasSize = canvasSize s,
                   backgroundColor = backgroundColor s, borderOptions = borderOptions s,
                   dateOptions = dateOptions s\<rparr>;
                newTemplates = templates s @ [templateData]
            in [SetTemplates newTemplates,
                SetItem storageKey (JSON_stringify newTemplates),
                Alert ''Template saved!''])"

definition loadTemplate :: "Template \<Rightarrow> App \<Rightarrow> effect list" where
  "loadTemplate template s =
     [SetCanvasSize (Template.canvasSize template),
      SetBackgroundColor (Template.backgroundColor template),
      SetBorderOptions (Template.borderOptions template),
      SetDateOptions (Template.dateOptions template),
      SetLayers (Template.layers template),
      SetSelectedLayerIndex None]"

definition deleteTemplate :: "string \<Rightarrow> App \<Rightarrow> effect list" where
  "deleteTemplate nm s =
     (let newTemplates = filter (\<lambda>t. Template.name t \<noteq> nm) (templates s)
      in [SetTemplates newTemplates, SetItem storageKey (JSON_stringify newTemplates)])"

subsection \<open>Background controls (lines 388--389)\<close>

definition onBackgroundColorChange :: "string \<Rightarrow> App \<Rightarrow> effect list" where
  "onBackgroundColorChange v s = [SetBackgroundColor v, SetBackgroundImage None]"

text \<open>
  \<open>file\<close> is the data URI the reader produced for the chosen file, \<open>None\<close> when the picker
  held no file.
\<close>

definition onBackgroundImageChange :: "string option \<Rightarrow> App \<Rightarrow> effect list" where
  "onBackgroundImageChange file s =
     (case file of None \<Rightarrow> [] | Some dataURI \<Rightarrow> [SetBackgroundImage (Some dataURI)])"

subsection \<open>Layers as objects: the spread of \<^verbatim>\<open>handleLayerPropChange\<close> (lines 186--191)\<close>

text \<open>
  \<^verbatim>\<open>{ ...layer, [prop]: value }\<close> works on the layer as an object, a list of keys with
  values: a key that is there keeps its place and gets the new value, a new key is added
  at the end.  That is \<^const>\<open>AList.update\<close>.
\<close>

definition obj_of_TextLayer :: "TextLayer \<Rightarrow> obj" where
  "obj_of_TextLayer l =
     [(''type'', Str ''text''), (''x'', Num (x l)), (''y'', Num (y l)),
      (''content'', Str (content l)), (''fontSize'', Num (fontSize l)),
      (''fontFamily'', Str (fontFamily l)), (''fontWeight'', Str (fontWeight l)),
      (''color'', Str (TextLayer.color l)), (''strokeColor'', Str (strokeColor l)),
      (''strokeWidth'', Num (strokeWidth l)), (''shadowColor'', Str (shadowColor l)),
      (''shadowBlur'', Num (shadowBlur l)), (''shadowOffsetX'', Num (shadowOffsetX l)),
      (''shadowOffsetY'', Num (shadowOffsetY l)), (''shadowEnabled'', Bool (shadowEnabled l))]"

definition obj_of_ImageLayer :: "ImageLayer \<Rightarrow> obj" where
  "obj_of_ImageLayer l =
     [(''type'', Str ''image''), (''x'', Num (x l)), (''y'', Num (y l)),
      (''src'', Str (src l)), (''width'', Num (ImageLayer.width l)),
      (''height'', Num (ImageLayer.height l))]"

fun obj_of :: "Layer \<Rightarrow> obj" where
  "obj_of (Text l) = obj_of_TextLayer l"
| "obj_of (Image l) = obj_of_ImageLayer l"

fun get_num :: "obj \<Rightarrow> string \<Rightarrow> real option" where
  "get_num ob k = (case map_of ob k of Some (Num r) \<Rightarrow> Some r | _ \<Rightarrow> None)"

fun get_str :: "obj \<Rightarrow> string \<Rightarrow> string option" where
  "get_str ob k = (case map_of ob k of Some (Str r) \<Rightarrow> Some r | _ \<Rightarrow> None)"

fun get_bool :: "obj \<Rightarrow> string \<Rightarrow> bool option" where
  "get_bool ob k = (case map_of ob k of Some (Bool r) \<Rightarrow> Some r | _ \<Rightarrow> None)"

text \<open>Reading an object at the type \<^verbatim>\<open>Layer\<close>: its keys and the type of each value.\<close>

definition as_TextLayer :: "obj \<Rightarrow> TextLayer option" where
  "as_TextLayer ob =
     do {
       vx \<leftarrow> get_num ob ''x''; vy \<leftarrow> get_num ob ''y'';
       vcontent \<leftarrow> get_str ob ''content''; vfontSize \<leftarrow> get_num ob ''fontSize'';
       vfontFamily \<leftarrow> get_str ob ''fontFamily''; vfontWeight \<leftarrow> get_str ob ''fontWeight'';
       vcolor \<leftarrow> get_str ob ''color''; vstrokeColor \<leftarrow> get_str ob ''strokeColor'';
       vstrokeWidth \<leftarrow> get_num ob ''strokeWidth''; vshadowColor \<leftarrow> get_str ob ''shadowColor'';
       vshadowBlur \<leftarrow> get_num ob ''shadowBlur''; vshadowOffsetX \<leftarrow> get_num ob ''shadowOffsetX'';
       vshadowOffsetY \<leftarrow> get_num ob ''shadowOffsetY'';
       vshadowEnabled \<leftarrow> get_bool ob ''shadowEnabled'';
       Some \<lparr>x = vx, y = vy, content = vcontent, fontSize = vfontSize,
             fontFamily = vfontFamily, fontWeight = vfontWeight, TextLayer.color = vcolor,
             strokeColor = vstrokeColor, strokeWidth = vstrokeWidth,
             shadowColor = vshadowColor, shadowBlur = vshadowBlur,
             shadowOffsetX = vshadowOffsetX, shadowOffsetY = vshadowOffsetY,
             shadowEnabled = vshadowEnabled\<rparr>
     }"

definition as_ImageLayer :: "obj \<Rightarrow> ImageLayer option" where
  "as_ImageLayer ob =
     do {
       vx \<leftarrow> get_num ob ''x''; vy \<leftarrow> get_num ob ''y'';
       vsrc \<leftarrow> get_str ob ''src''; vwidth \<leftarrow> get_num ob ''width''; vheight \<leftarrow> get_num ob ''height'';
       Some \<lparr>x = vx, y = vy, src = vsrc, ImageLayer.width = vwidth, height = vheight\<rparr>
     }"

definition TextLayer_keys :: "string list" where
  "TextLayer_keys =
     [''type'', ''x'', ''y'', ''content'', ''fontSize'', ''fontFamily'', ''fontWeight'',
      ''color'', ''strokeColor'', ''strokeWidth'', ''shadowColor'', ''shadowBlur'',
      ''shadowOffsetX'', ''shadowOffsetY'', ''shadowEnabled'']"

definition ImageLayer_keys :: "string list" where
  "ImageLayer_keys = [''type'', ''x'', ''y'', ''src'', ''width'', ''height'']"

definition as_Layer :: "obj \<Rightarrow> Layer option" where
  "as_Layer ob =
     (if map_of ob ''type'' = Some (Str ''text'') \<and> map fst ob = TextLayer_keys
      then map_option Text (as_TextLayer ob)
      else if map_of ob ''type'' = Some (Str ''image'') \<and> map fst ob = ImageLayer_keys
      then map_option Image (as_ImageLayer ob)
      else None)"

fun typed_layers :: "obj list \<Rightarrow> off_model + Layer list" where
  "typed_layers [] = Inr []"
| "typed_layers (ob # obs) =
     (case as_Layer ob of
        None \<Rightarrow> Inl (NotALayer ob)
      | Some l \<Rightarrow> (case typed_layers obs of Inl e \<Rightarrow> Inl e | Inr ls \<Rightarrow> Inr (l # ls)))"

text \<open>The array \<^verbatim>\<open>layers.map(...)\<close> of lines 188--190, each element as an object.\<close>

definition spreadLayers :: "string \<Rightarrow> js_value \<Rightarrow> nat \<Rightarrow> Layer list \<Rightarrow> obj list" where
  "spreadLayers prop v sel ls =
     map (\<lambda>(index, layer).
            if index = sel then AList.update prop v (obj_of layer)
            else obj_of layer)
         (enumerate 0 ls)"

definition handleLayerPropChange :: "string \<Rightarrow> js_value \<Rightarrow> App \<Rightarrow> off_model + effect list" where
  "handleLayerPropChange prop v s =
     (case selectedLayerIndex s of
        None \<Rightarrow> Inr []
      | Some sel \<Rightarrow>
          (case typed_layers (spreadLayers prop v sel (layers s)) of
             Inl e \<Rightarrow> Inl e
           | Inr ls \<Rightarrow> Inr [SetLayers ls]))"

definition dispatch_checked :: "(App \<Rightarrow> off_model + effect list) \<Rightarrow> App \<Rightarrow> off_model + App" where
  "dispatch_checked handler s =
     (case handler s of Inl e \<Rightarrow> Inl e | Inr es \<Rightarrow> Inr (run es s))"

subsection \<open>The callers of \<^verbatim>\<open>handleLayerPropChange\<close> (lines 325--326 and 352--373)\<close>

text \<open>
  The function is local to the component, which calls it in fifteen places: twice in
  \<^verbatim>\<open>handleMouseMove\<close>, with the keys \<^verbatim>\<open>x\<close> and \<^verbatim>\<open>y\<close> and a number, and once in each of
  thirteen editing controls, with the control's key and its value (a string, a checkbox
  state, or the integer \<^verbatim>\<open>parseInt\<close> reads from a range input).  A control is on the page
  only while a layer of its variant is selected: eleven controls for \<^verbatim>\<open>type === 'text'\<close>,
  four of them only while \<^verbatim>\<open>shadowEnabled\<close>, and two for \<^verbatim>\<open>type === 'image'\<close>.
\<close>

fun layer_type :: "Layer \<Rightarrow> string" where
  "layer_type (Text l) = ''text''"
| "layer_type (Image l) = ''image''"

datatype call_site =
    DragX real
  | DragY real
  | ContentArea string
  | FontFamilySelect string
  | FontSizeRange int
  | ColorInput string
  | StrokeWidthRange int
  | StrokeColorInput string
  | ShadowEnabledBox bool
  | ShadowColorInput string
  | ShadowBlurRange int
  | ShadowOffsetXRange int
  | ShadowOffsetYRange int
  | WidthRange int
  | HeightRange int

fun call_prop :: "call_site \<Rightarrow> string" where
  "call_prop (DragX r) = ''x''"
| "call_prop (DragY r) = ''y''"
| "call_prop (ContentArea t) = ''content''"
| "call_prop (FontFamilySelect t) = ''fontFamily''"
| "call_prop (FontSizeRange n) = ''fontSize''"
| "call_prop (ColorInput t) = ''color''"
| "call_prop (StrokeWidthRange n) = ''strokeWidth''"
| "call_prop (StrokeColorInput t) = ''strokeColor''"
| "call_prop (ShadowEnabledBox b) = ''shadowEnabled''"
| "call_prop (ShadowColorInput t) = ''shadowColor''"
| "call_prop (ShadowBlurRange n) = ''shadowBlur''"
| "call_prop (ShadowOffsetXRange n) = ''shadowOffsetX''"
| "call_prop (ShadowOffsetYRange n) = ''shadowOffsetY''"
| "call_prop (WidthRange n) = ''width''"
| "call_prop (HeightRange n) = ''height''"

fun call_value :: "call_site \<Rightarrow> js_value" where
  "call_value (DragX r) = Num r"
| "call_value (DragY r) = Num r"
| "call_value (ContentArea t) = Str t"
| "call_value (FontFamilySelect t) = Str t"
| "call_value (FontSizeRange n) = Num (of_int n)"
| "call_value (ColorInput t) = Str t"
| "call_value (StrokeWidthRange n) = Num (of_int n)"
| "call_value (StrokeColorInput t) = Str t"
| "call_value (ShadowEnabledBox b) = Bool b"
| "call_value (ShadowColorInput t) = Str t"
| "call_value (ShadowBlurRange n) = Num (of_int n)"
| "call_value (ShadowOffsetXRange n) = Num (of_int n)"
| "call_value (ShadowOffsetYRange n) = Num (of_int n)"
| "call_value (WidthRange n) = Num (of_int n)"
| "call_value (HeightRange n) = Num (of_int n)"

text \<open>Whether the call can be made while the given layer is the selected one.\<close>

definition shadowControls :: "Layer \<Rightarrow> bool" where
  "shadowControls l = (case l of Text tx \<Rightarrow> shadowEnabled tx | Image im \<Rightarrow> False)"

definition call_possible :: "call_site \<Rightarrow> Layer \<Rightarrow> bool" where
  "call_possible c l =
     (case c of
        DragX r \<Rightarrow> True
      | DragY r \<Rightarrow> True
      | ContentArea t \<Rightarrow> layer_type l = ''text''
      | FontFamilySelect t \<Rightarrow> layer_type l = ''text''
      | FontSizeRange n \<Rightarrow> layer_type l = ''text''
      | ColorInput t \<Rightarrow> layer_type l = ''text''
      | StrokeWidthRange n \<Rightarrow> layer_type l = ''text''
      | StrokeColorInput t \<Rightarrow> layer_type l = ''text''
      | ShadowEnabledBox b \<Rightarrow> layer_type l = ''text''
      | ShadowColorInput t \<Rightarrow> shadowControls l
      | ShadowBlurRange n \<Rightarrow> shadowControls l
      | ShadowOffsetXRange n \<Rightarrow> shadowControls l
      | ShadowOffsetYRange n \<Rightarrow> shadowControls l
      | WidthRange n \<Rightarrow> layer_type l = ''image''
      | HeightRange n \<Rightarrow> layer_type l = ''image'')"

subsection \<open>Deleting the selected layer (lines 239--243)\<close>

definition deleteSelectedLayer :: "App \<Rightarrow> effect list" where
  "deleteSelectedLayer s =
     (case selectedLayerIndex s of
        None \<Rightarrow> []
      | Some sel \<Rightarrow>
          [SetLayers (map snd (filter (\<lambda>(index, _). index \<noteq> sel) (enumerate 0 (layers s)))),
           SetSelectedLayerIndex None])"

subsection \<open>Pointer handlers (lines 284--329)\<close>

datatype Pos = Pos (pos_x: real) (pos_y: real)

datatype Rect = Rect (rect_x: real) (rect_y: real) (rect_width: real) (rect_height: real)

text \<open>
  The font a context measures and draws text with.  The source sets \<^verbatim>\<open>ctx.font\<close> to the
  string \<^verbatim>\<open>`${fontWeight} ${fontSize}px ${fontFamily}`\<close>; the model keeps its three parts.
  \<open>measureText\<close>, a parameter, is the width \<^verbatim>\<open>ctx.measureText(content).width\<close> under a font.
\<close>

datatype Font = Font string real string

type_synonym measure = "Font \<Rightarrow> string \<Rightarrow> real"

text \<open>
  The scale factors divide by the size of the displayed canvas.  When that is zero the
  position is not finite (\<open>None\<close>).  The difference, the quotient and the product are
  rounded one after the other.
\<close>

definition getMousePos :: "rounding \<Rightarrow> HTMLCanvasElement \<Rightarrow> MouseEvent \<Rightarrow> Pos option" where
  "getMousePos rnd canvas evt =
     (let rect = boundingClientRect canvas in
      if DOMRect.width rect = 0 \<or> DOMRect.height rect = 0 then None
      else Some (Pos (rnd (rnd (clientX evt - left rect) *
                           rnd (HTMLCanvasElement.width canvas / DOMRect.width rect)))
                     (rnd (rnd (clientY evt - top rect) *
                           rnd (HTMLCanvasElement.height canvas / DOMRect.height rect)))))"

fun layer_x :: "Layer \<Rightarrow> real" where
  "layer_x (Text l) = x l"
| "layer_x (Image l) = x l"

fun layer_y :: "Layer \<Rightarrow> real" where
  "layer_y (Text l) = y l"
| "layer_y (Image l) = y l"

text \<open>\<^verbatim>\<open>Array.prototype.findIndex\<close>: the first index whose element passes, or \<open>-1\<close>.\<close>

fun findIndex :: "('a \<Rightarrow> bool) \<Rightarrow> 'a list \<Rightarrow> int" where
  "findIndex P [] = - 1"
| "findIndex P (a # as) =
     (if P a then 0 else (let r = findIndex P as in if r = - 1 then - 1 else r + 1))"

text \<open>The callback of \<^verbatim>\<open>findIndex\<close> in \<^verbatim>\<open>handleMouseDown\<close> (lines 299--309).\<close>

definition hitRect :: "rounding \<Rightarrow> measure \<Rightarrow> Layer \<Rightarrow> Rect" where
  "hitRect rnd measureText layer =
     (case layer of
        Text l \<Rightarrow>
          (let metrics_width = measureText (Font (fontWeight l) (fontSize l) (fontFamily l)) (content l)
           in Rect (rnd (x l - rnd (metrics_width / 2))) (rnd (y l - rnd (fontSize l / 2)))
                   metrics_width (fontSize l))
      | Image l \<Rightarrow>
          Rect (rnd (x l - rnd (ImageLayer.width l / 2))) (rnd (y l - rnd (ImageLayer.height l / 2)))
               (ImageLayer.width l) (ImageLayer.height l))"

definition hit :: "rounding \<Rightarrow> measure \<Rightarrow> Pos \<Rightarrow> Layer \<Rightarrow> bool" where
  "hit rnd measureText pos layer =
     (let rect = hitRect rnd measureText layer in
      pos_x pos \<ge> rect_x rect \<and> pos_x pos \<le> rnd (rect_x rect + rect_width rect) \<and>
      pos_y pos \<ge> rect_y rect \<and> pos_y pos \<le> rnd (rect_y rect + rect_height rect))"

text \<open>
  The hit-tester: the index in \<^verbatim>\<open>layers\<close> of the layer \<^verbatim>\<open>handleMouseDown\<close> picks for a
  position, if any (lines 299--312).
\<close>

definition clickedLayer :: "rounding \<Rightarrow> measure \<Rightarrow> Layer list \<Rightarrow> Pos \<Rightarrow> nat option" where
  "clickedLayer rnd measureText ls pos =
     (let clickedLayerIndex = findIndex (hit rnd measureText pos) (rev ls) in
      if clickedLayerIndex \<noteq> - 1
      then Some (nat (int (length ls) - 1 - clickedLayerIndex))
      else None)"

text \<open>
  \<open>canvasRef\<close> is \<open>None\<close> when the ref holds no canvas or the canvas gives no 2D context: both
  return at once.  A position that is not finite fails every comparison of the callback
  against the finite numbers of a layer, so no layer is found.
\<close>

definition handleMouseDown ::
  "rounding \<Rightarrow> measure \<Rightarrow> HTMLCanvasElement option \<Rightarrow> MouseEvent \<Rightarrow> App \<Rightarrow> effect list" where
  "handleMouseDown rnd measureText canvasRef e s =
     (case canvasRef of
        None \<Rightarrow> []
      | Some canvas \<Rightarrow>
          (case getMousePos rnd canvas e of
             None \<Rightarrow> [SetSelectedLayerIndex None]
           | Some pos \<Rightarrow>
               (case clickedLayer rnd measureText (layers s) pos of
                  Some originalIndex \<Rightarrow>
                    [SetSelectedLayerIndex (Some originalIndex),
                     SetDragInfo
                       \<lparr>isDragging = True, targetIndex = Some originalIndex,
                        startX = rnd (pos_x pos - layer_x (layers s ! originalIndex)),
                        startY = rnd (pos_y pos - layer_y (layers s ! originalIndex))\<rparr>]
                | None \<Rightarrow> [SetSelectedLayerIndex None])))"

text \<open>
  Both calls of \<^verbatim>\<open>handleLayerPropChange\<close> are made by the handler of one render, so both
  map over the \<^verbatim>\<open>layers\<close> of that render.
\<close>

definition handleMouseMove ::
  "rounding \<Rightarrow> HTMLCanvasElement option \<Rightarrow> MouseEvent \<Rightarrow> App \<Rightarrow> off_model + effect list" where
  "handleMouseMove rnd canvasRef e s =
     (if \<not> isDragging (dragInfo s) \<or> targetIndex (dragInfo s) = None then Inr []
      else
        (case canvasRef of
           None \<Rightarrow> Inr []
         | Some canvas \<Rightarrow>
             (case getMousePos rnd canvas e of
                None \<Rightarrow> Inl NotFinite
              | Some pos \<Rightarrow>
                  (case handleLayerPropChange ''x'' (Num (rnd (pos_x pos - startX (dragInfo s)))) s of
                     Inl err \<Rightarrow> Inl err
                   | Inr es1 \<Rightarrow>
                       (case handleLayerPropChange ''y'' (Num (rnd (pos_y pos - startY (dragInfo s)))) s of
                          Inl err \<Rightarrow> Inl err
                        | Inr es2 \<Rightarrow> Inr (es1 @ es2))))))"

definition handleMouseUp :: "App \<Rightarrow> effect list" where
  "handleMouseUp s = [SetDragInfo noDrag]"

subsection \<open>The 2D context\<close>

text \<open>
  The properties of \<^verbatim>\<open>CanvasRenderingContext2D\<close> the component assigns, the stack of
  \<^verbatim>\<open>save\<close> and \<^verbatim>\<open>restore\<close>, and the drawing calls made so far, each with the properties it
  was made under.
\<close>

record DrawingState =
  fillStyle :: string
  strokeStyle :: string
  lineWidth :: real
  font :: Font
  textAlign :: string
  textBaseline :: string
  shadowColor :: string
  shadowBlur :: real
  shadowOffsetX :: real
  shadowOffsetY :: real
  lineDash :: "real list"

datatype draw =
    ClearRect real real real real
  | DrawImage HTMLImageElement real real real real
  | FillRect real real real real
  | StrokeRect real real real real
  | StrokeText string real real
  | FillText string real real

record Context =
  state :: DrawingState
  saved :: "DrawingState list"
  calls :: "(draw \<times> DrawingState) list"

definition assign :: "(DrawingState \<Rightarrow> DrawingState) \<Rightarrow> Context \<Rightarrow> Context" where
  "assign f ctx = ctx\<lparr>state := f (state ctx)\<rparr>"

definition call :: "draw \<Rightarrow> Context \<Rightarrow> Context" where
  "call d ctx = ctx\<lparr>calls := calls ctx @ [(d, state ctx)]\<rparr>"

definition save :: "Context \<Rightarrow> Context" where
  "save ctx = ctx\<lparr>saved := state ctx # saved ctx\<rparr>"

definition restore :: "Context \<Rightarrow> Context" where
  "restore ctx = (case saved ctx of [] \<Rightarrow> ctx | d # ds \<Rightarrow> ctx\<lparr>state := d, saved := ds\<rparr>)"

subsection \<open>Drawing helpers (lines 148--183)\<close>

definition drawText :: "TextLayer \<Rightarrow> Context \<Rightarrow> Context" where
  "drawText layer ctx0 =
     (let ctx = save ctx0;
          ctx = assign (\<lambda>d. d\<lparr>font := Font (fontWeight layer) (fontSize layer) (fontFamily layer)\<rparr>) ctx;
          ctx = assign (\<lambda>d. d\<lparr>fillStyle := TextLayer.color layer\<rparr>) ctx;
          ctx = assign (\<lambda>d. d\<lparr>textAlign := ''center'', textBaseline := ''middle''\<rparr>) ctx;
          ctx = (if shadowEnabled layer
                 then assign (\<lambda>d. d\<lparr>shadowColor := TextLayer.shadowColor layer,
                                      shadowBlur := TextLayer.shadowBlur layer,
                                      shadowOffsetX := TextLayer.shadowOffsetX layer,
                                      shadowOffsetY := TextLayer.shadowOffsetY layer\<rparr>) ctx
                 else ctx);
          ctx = (if strokeWidth layer > 0
                 then call (StrokeText (content layer) (x layer) (y layer))
                        (assign (\<lambda>d. d\<lparr>strokeStyle := strokeColor layer,
                                         lineWidth := strokeWidth layer\<rparr>) ctx)
                 else ctx);
          ctx = call (FillText (content layer) (x layer) (y layer)) ctx
      in restore ctx)"

definition drawImage :: "rounding \<Rightarrow> ImageLayer \<Rightarrow> HTMLImageElement \<Rightarrow> Context \<Rightarrow> Context" where
  "drawImage rnd layer img ctx =
     call (DrawImage img (rnd (x layer - rnd (ImageLayer.width layer / 2)))
             (rnd (y layer - rnd (ImageLayer.height layer / 2)))
             (ImageLayer.width layer) (ImageLayer.height layer)) ctx"

definition selectionRect :: "rounding \<Rightarrow> measure \<Rightarrow> Layer \<Rightarrow> Rect" where
  "selectionRect rnd measureText layer =
     (case layer of
        Text l \<Rightarrow>
          (let metrics_width = measureText (Font (fontWeight l) (fontSize l) (fontFamily l)) (content l)
           in Rect (rnd (rnd (x l - rnd (metrics_width / 2)) - 10))
                   (rnd (rnd (y l - rnd (fontSize l / 2)) - 10))
                   (rnd (metrics_width + 20)) (rnd (fontSize l + 20)))
      | Image l \<Rightarrow>
          Rect (rnd (rnd (x l - rnd (ImageLayer.width l / 2)) - 5))
               (rnd (rnd (y l - rnd (ImageLayer.height l / 2)) - 5))
               (rnd (ImageLayer.width l + 10)) (rnd (ImageLayer.height l + 10)))"

definition drawSelection :: "rounding \<Rightarrow> measure \<Rightarrow> Layer \<Rightarrow> Context \<Rightarrow> Context" where
  "drawSelection rnd measureText layer ctx0 =
     (let ctx = assign (\<lambda>d. d\<lparr>strokeStyle := ''rgba(0, 123, 255, 0.9)'', lineWidth := 2\<rparr>) ctx0;
          ctx = assign (\<lambda>d. d\<lparr>lineDash := [6, 3]\<rparr>) ctx;
          ctx = (case layer of
                   Text l \<Rightarrow> assign (\<lambda>d. d\<lparr>font := Font (fontWeight l) (fontSize l) (fontFamily l)\<rparr>) ctx
                 | Image l \<Rightarrow> ctx);
          rect = selectionRect rnd measureText layer;
          ctx = call (StrokeRect (rect_x rect) (rect_y rect) (rect_width rect) (rect_height rect)) ctx
      in assign (\<lambda>d. d\<lparr>lineDash := []\<rparr>) ctx)"

subsection \<open>The render effect (lines 97--145)\<close>

text \<open>The clock: \<^verbatim>\<open>getFullYear()\<close>, \<^verbatim>\<open>getMonth()\<close> (from 0) and \<^verbatim>\<open>getDate()\<close> of \<^verbatim>\<open>new Date()\<close>.\<close>

record Date =
  fullYear :: nat
  month :: nat
  date :: nat

fun String_of :: "nat \<Rightarrow> string" where
  "String_of n =
     (if n < 10 then [''0123456789'' ! n]
      else String_of (n div 10) @ [''0123456789'' ! (n mod 10)])"

definition padStart :: "nat \<Rightarrow> string \<Rightarrow> string \<Rightarrow> string" where
  "padStart targetLength padString s =
     take (targetLength - length s) (concat (replicate (targetLength - length s) padString)) @ s"

definition dateString :: "Date \<Rightarrow> string" where
  "dateString today =
     String_of (fullYear today) @ ''.'' @ padStart 2 ''0'' (String_of (month today + 1)) @ ''.'' @
     padStart 2 ''0'' (String_of (date today))"

text \<open>
  The effect is one function in the source; its five commented blocks are five definitions
  here, run in the order of the source.  A string is truthy when it is not empty, a decoded
  image always.
\<close>

definition paintBackground :: "HTMLCanvasElement \<Rightarrow> App \<Rightarrow> Context \<Rightarrow> Context" where
  "paintBackground canvas s ctx =
     (case (case backgroundImage s of
              None \<Rightarrow> None
            | Some bg \<Rightarrow> if bg = [] then None else imageObjects s bg) of
        Some img \<Rightarrow>
          call (DrawImage img 0 0 (HTMLCanvasElement.width canvas) (HTMLCanvasElement.height canvas)) ctx
      | None \<Rightarrow>
          call (FillRect 0 0 (HTMLCanvasElement.width canvas) (HTMLCanvasElement.height canvas))
            (assign (\<lambda>d. d\<lparr>fillStyle := backgroundColor s\<rparr>) ctx))"

definition paintBorder :: "HTMLCanvasElement \<Rightarrow> App \<Rightarrow> Context \<Rightarrow> Context" where
  "paintBorder canvas s ctx =
     (if BorderOptions.enabled (borderOptions s) \<and> BorderOptions.width (borderOptions s) > 0
      then call (StrokeRect 0 0 (HTMLCanvasElement.width canvas) (HTMLCanvasElement.height canvas))
             (assign (\<lambda>d. d\<lparr>strokeStyle := BorderOptions.color (borderOptions s),
                              lineWidth := BorderOptions.width (borderOptions s)\<rparr>) ctx)
      else ctx)"

definition paintDate :: "rounding \<Rightarrow> Date \<Rightarrow> HTMLCanvasElement \<Rightarrow> App \<Rightarrow> Context \<Rightarrow> Context" where
  "paintDate rnd today canvas s ctx0 =
     (if DateOptions.enabled (dateOptions s)
      then
        (let ctx = assign (\<lambda>d. d\<lparr>font := Font ''bold'' 32 ''Arial''\<rparr>) ctx0;
             ctx = assign (\<lambda>d. d\<lparr>fillStyle := ''#FFFFFF'', strokeStyle := ''#000000'', lineWidth := 6\<rparr>) ctx;
             ctx = assign (\<lambda>d. d\<lparr>textAlign := ''right'', textBaseline := ''bottom''\<rparr>) ctx;
             ctx = call (StrokeText (dateString today) (rnd (HTMLCanvasElement.width canvas - 20))
                           (rnd (HTMLCanvasElement.height canvas - 20))) ctx
         in call (FillText (dateString today) (rnd (HTMLCanvasElement.width canvas - 20))
                    (rnd (HTMLCanvasElement.height canvas - 20))) ctx)
      else ctx0)"

definition paintLayer ::
  "rounding \<Rightarrow> (string \<rightharpoonup> HTMLImageElement) \<Rightarrow> Layer \<Rightarrow> Context \<Rightarrow> Context" where
  "paintLayer rnd images layer ctx =
     (case layer of
        Text l \<Rightarrow> drawText l ctx
      | Image l \<Rightarrow> (case images (src l) of Some img \<Rightarrow> drawImage rnd l img ctx | None \<Rightarrow> ctx))"

definition paintLayers ::
  "rounding \<Rightarrow> (string \<rightharpoonup> HTMLImageElement) \<Rightarrow> Layer list \<Rightarrow> Context \<Rightarrow> Context" where
  "paintLayers rnd images ls ctx = fold (paintLayer rnd images) ls ctx"

definition paintSelection :: "rounding \<Rightarrow> measure \<Rightarrow> App \<Rightarrow> Context \<Rightarrow> Context" where
  "paintSelection rnd measureText s ctx =
     (case selectedLayer s of Some layer \<Rightarrow> drawSelection rnd measureText layer ctx | None \<Rightarrow> ctx)"

text \<open>\<open>canvasRef\<close> is \<open>None\<close> when there is no canvas or no 2D context: nothing is drawn.\<close>

definition render ::
  "rounding \<Rightarrow> measure \<Rightarrow> Date \<Rightarrow> HTMLCanvasElement option \<Rightarrow> App \<Rightarrow> Context \<Rightarrow> Context" where
  "render rnd measureText today canvasRef s ctx0 =
     (case canvasRef of
        None \<Rightarrow> ctx0
      | Some canvas \<Rightarrow>
          (let ctx = call (ClearRect 0 0 (HTMLCanvasElement.width canvas) (HTMLCanvasElement.height canvas)) ctx0;
               ctx = paintBackground canvas s ctx;
               ctx = paintBorder canvas s ctx;
               ctx = paintDate rnd today canvas s ctx;
               ctx = paintLayers rnd (imageObjects s) (layers s) ctx;
               ctx = paintSelection rnd measureText s ctx
           in ctx))"

section \<open>Terms of the specification\<close>

text \<open>
  The specification names operations and notions that the component does not name.  Each
  is defined here from its words, over the functions above.
\<close>

text \<open>
  \<^verbatim>\<open>loadAll()\<close>: the templates a fresh mount holds after its effect has read the storage.
\<close>

definition loadAll :: "(string \<rightharpoonup> stored_text) \<Rightarrow> off_model + Template list" where
  "loadAll storage =
     (case dispatch_checked loadTemplates (initialApp storage) of
        Inl e \<Rightarrow> Inl e
      | Inr s \<Rightarrow> Inr (templates s))"

text \<open>
  The Scene: canvas size, background (solid colour or image reference), border options,
  date options and the ordered layers.  The selection is no part of it.
\<close>

record Scene =
  sceneCanvasSize :: CanvasSize
  sceneBackgroundColor :: string
  sceneBackgroundImage :: "string option"
  sceneBorderOptions :: BorderOptions
  sceneDateOptions :: DateOptions
  sceneLayers :: "Layer list"

definition scene_of :: "App \<Rightarrow> Scene" where
  "scene_of s =
     \<lparr>sceneCanvasSize = App.canvasSize s, sceneBackgroundColor = App.backgroundColor s,
      sceneBackgroundImage = backgroundImage s, sceneBorderOptions = App.borderOptions s,
      sceneDateOptions = App.dateOptions s, sceneLayers = App.layers s\<rparr>"

text \<open>
  \<^verbatim>\<open>apply(load(save(name, scene)))\<close>: the scene of \<open>s\<close> is saved under \<open>nm\<close>, the stored list
  is loaded, and the template just saved (the last of the list) is applied to the live
  state \<open>live\<close>.  \<open>None\<close> when nothing could be loaded.
\<close>

definition saveLoadApply :: "string \<Rightarrow> App \<Rightarrow> App \<Rightarrow> Scene option" where
  "saveLoadApply nm s live =
     (case loadAll (localStorage (dispatch (saveTemplate (Some nm)) s)) of
        Inl e \<Rightarrow> None
      | Inr ts \<Rightarrow>
          if ts = [] then None
          else Some (scene_of (dispatch (loadTemplate (last ts)) live)))"

text \<open>
  The bounding box of a layer: measured text width by declared font size for text,
  declared width by height for an image.  The box lies around the layer's \<open>(x, y)\<close>: its left
  edge is \<open>x\<close> less half the width and its right edge the left edge plus the width, its
  top edge \<open>y\<close> less half the height and its bottom edge the top edge plus the height, each
  edge the double that the arithmetic gives.  In exact arithmetic that is the box centred
  at \<open>(x, y)\<close>.
\<close>

definition boundingBox :: "measure \<Rightarrow> Layer \<Rightarrow> real \<times> real" where
  "boundingBox measureText layer =
     (case layer of
        Text l \<Rightarrow> (measureText (Font (fontWeight l) (fontSize l) (fontFamily l)) (content l), fontSize l)
      | Image l \<Rightarrow> (ImageLayer.width l, ImageLayer.height l))"

definition boxContains :: "rounding \<Rightarrow> measure \<Rightarrow> Layer \<Rightarrow> Pos \<Rightarrow> bool" where
  "boxContains rnd measureText layer pos =
     (let boxWidth = fst (boundingBox measureText layer);
          boxHeight = snd (boundingBox measureText layer);
          boxLeft = rnd (layer_x layer - rnd (boxWidth / 2));
          boxTop = rnd (layer_y layer - rnd (boxHeight / 2))
      in boxLeft \<le> pos_x pos \<and> pos_x pos \<le> rnd (boxLeft + boxWidth) \<and>
         boxTop \<le> pos_y pos \<and> pos_y pos \<le> rnd (boxTop + boxHeight))"

definition centredBoxContains :: "measure \<Rightarrow> Layer \<Rightarrow> Pos \<Rightarrow> bool" where
  "centredBoxContains measureText layer pos =
     (\<bar>pos_x pos - layer_x layer\<bar> \<le> fst (boundingBox measureText layer) / 2 \<and>
      \<bar>pos_y pos - layer_y layer\<bar> \<le> snd (boundingBox measureText layer) / 2)"

text \<open>
  The fields of a layer other than its tag, with the types the interfaces declare (lines
  13--15).
\<close>

datatype field_type = TNumber | TString | TBoolean

fun has_type :: "js_value \<Rightarrow> field_type \<Rightarrow> bool" where
  "has_type (Num r) t = (t = TNumber)"
| "has_type (Str r) t = (t = TString)"
| "has_type (Bool r) t = (t = TBoolean)"

fun fields :: "Layer \<Rightarrow> (string \<times> field_type) list" where
  "fields (Text l) =
     [(''x'', TNumber), (''y'', TNumber), (''content'', TString), (''fontSize'', TNumber),
      (''fontFamily'', TString), (''fontWeight'', TString), (''color'', TString),
      (''strokeColor'', TString), (''strokeWidth'', TNumber), (''shadowColor'', TString),
      (''shadowBlur'', TNumber), (''shadowOffsetX'', TNumber), (''shadowOffsetY'', TNumber),
      (''shadowEnabled'', TBoolean)]"
| "fields (Image l) =
     [(''x'', TNumber), (''y'', TNumber), (''src'', TString), (''width'', TNumber),
      (''height'', TNumber)]"

text \<open>
  The drawing calls of the renderer's five phases, after the words of the design: the
  background (the decoded background image stretched over the canvas when the reference
  resolves in the cache, an empty reference being none; the solid fill otherwise), the
  border, the date stamp, one layer, and the selection outline (the bounding box padded by
  10 for text and by 5 for an image on each side).  Coordinates are the doubles the
  arithmetic gives.
\<close>

definition backgroundCalls :: "HTMLCanvasElement \<Rightarrow> App \<Rightarrow> draw list" where
  "backgroundCalls canvas s =
     (case backgroundImage s of
        None \<Rightarrow> [FillRect 0 0 (HTMLCanvasElement.width canvas) (HTMLCanvasElement.height canvas)]
      | Some bg \<Rightarrow>
          (case (if bg = [] then None else imageObjects s bg) of
             None \<Rightarrow> [FillRect 0 0 (HTMLCanvasElement.width canvas) (HTMLCanvasElement.height canvas)]
           | Some img \<Rightarrow> [DrawImage img 0 0 (HTMLCanvasElement.width canvas) (HTMLCanvasElement.height canvas)]))"

definition borderCalls :: "HTMLCanvasElement \<Rightarrow> App \<Rightarrow> draw list" where
  "borderCalls canvas s =
     (if BorderOptions.enabled (App.borderOptions s) \<and> BorderOptions.width (App.borderOptions s) > 0
      then [StrokeRect 0 0 (HTMLCanvasElement.width canvas) (HTMLCanvasElement.height canvas)]
      else [])"

definition dateCalls :: "rounding \<Rightarrow> Date \<Rightarrow> HTMLCanvasElement \<Rightarrow> App \<Rightarrow> draw list" where
  "dateCalls rnd today canvas s =
     (if DateOptions.enabled (App.dateOptions s)
      then [StrokeText (dateString today) (rnd (HTMLCanvasElement.width canvas - 20))
              (rnd (HTMLCanvasElement.height canvas - 20)),
            FillText (dateString today) (rnd (HTMLCanvasElement.width canvas - 20))
              (rnd (HTMLCanvasElement.height canvas - 20))]
      else [])"

definition layerCalls :: "rounding \<Rightarrow> (string \<rightharpoonup> HTMLImageElement) \<Rightarrow> Layer \<Rightarrow> draw list" where
  "layerCalls rnd images layer =
     (case layer of
        Text l \<Rightarrow>
          (if strokeWidth l > 0 then [StrokeText (content l) (x l) (y l)] else []) @
          [FillText (content l) (x l) (y l)]
      | Image l \<Rightarrow>
          (case images (src l) of
             None \<Rightarrow> []
           | Some img \<Rightarrow>
               [DrawImage img (rnd (x l - rnd (ImageLayer.width l / 2)))
                  (rnd (y l - rnd (ImageLayer.height l / 2)))
                  (ImageLayer.width l) (ImageLayer.height l)]))"

definition selectionCalls :: "rounding \<Rightarrow> measure \<Rightarrow> App \<Rightarrow> draw list" where
  "selectionCalls rnd measureText s =
     (case selectedLayer s of
        None \<Rightarrow> []
      | Some layer \<Rightarrow>
          (let pad = (case layer of Text l \<Rightarrow> 10 | Image l \<Rightarrow> 5);
               boxWidth = fst (boundingBox measureText layer);
               boxHeight = snd (boundingBox measureText layer)
           in [StrokeRect (rnd (rnd (layer_x layer - rnd (boxWidth / 2)) - pad))
                 (rnd (rnd (layer_y layer - rnd (boxHeight / 2)) - pad))
                 (rnd (boxWidth + 2 * pad)) (rnd (boxHeight + 2 * pad))]))"

text \<open>A layer moved to a new \<open>x\<close> or a new \<open>y\<close>.\<close>

fun with_x :: "real \<Rightarrow> Layer \<Rightarrow> Layer" where
  "with_x r (Text l) = Text (l\<lparr>x := r\<rparr>)"
| "with_x r (Image l) = Image (l\<lparr>x := r\<rparr>)"

fun with_y :: "real \<Rightarrow> Layer \<Rightarrow> Layer" where
  "with_y r (Text l) = Text (l\<lparr>y := r\<rparr>)"
| "with_y r (Image l) = Image (l\<lparr>y := r\<rparr>)"

subsection \<open>Concrete inputs\<close>

text \<open>
  Every number the examples compute is an integer of small size, which doubles hold
  exactly.  The rounding that leaves every number as it is agrees with them there.
\<close>

definition exact :: rounding where
  "exact r = r"

definition exampleImage :: ImageLayer where
  "exampleImage = \<lparr>x = 100, y = 100, src = ''data:image/png;base64,AAAA'', ImageLayer.width = 50, height = 50\<rparr>"

definition exampleCanvas :: HTMLCanvasElement where
  "exampleCanvas =
     \<lparr>HTMLCanvasElement.width = 1280, height = 720,
      boundingClientRect = \<lparr>left = 0, top = 0, width = 1280, height = 720\<rparr>\<rparr>"

text \<open>A measure that gives every character 40 pixels.\<close>

definition exampleMeasure :: measure where
  "exampleMeasure f t = 40 * real (length t)"

text \<open>A mounted component whose user has picked a background image.\<close>

definition withBackgroundImage :: App where
  "withBackgroundImage = (initialApp Map.empty)\<lparr>backgroundImage := Some ''data:image/png;base64,AAAA''\<rparr>"

definition exampleTemplate :: Template where
  "exampleTemplate =
     \<lparr>Template.name = ''A'', layers = [Image exampleImage],
      canvasSize = \<lparr>CanvasSize.width = 1080, height = 1080\<rparr>, backgroundColor = ''#ffffff'',
      borderOptions = \<lparr>BorderOptions.color = ''#000000'', width = 0, enabled = False\<rparr>,
      dateOptions = \<lparr>DateOptions.enabled = False\<rparr>\<rparr>"

text \<open>One image layer, nothing selected, no image decoded yet.\<close>

definition dragStart :: App where
  "dragStart = (initialApp Map.empty)\<lparr>App.layers := [Image exampleImage], selectedLayerIndex := None\<rparr>"

text \<open>An image layer that is not decoded yet, below a text layer that lies elsewhere.\<close>

definition imageBelowText :: App where
  "imageBelowText = dragStart\<lparr>App.layers := [Image exampleImage, Text defaultLayer]\<rparr>"

text \<open>Two image layers over each other, neither decoded yet.\<close>

definition overlapping :: App where
  "overlapping =
     dragStart\<lparr>App.layers := [Image exampleImage, Image (exampleImage\<lparr>src := ''data:image/png;base64,BBBB''\<rparr>)]\<rparr>"

text \<open>A context as the canvas hands it out.\<close>

definition newContext :: Context where
  "newContext =
     \<lparr>state = \<lparr>fillStyle = ''#000000'', strokeStyle = ''#000000'', lineWidth = 1,
                font = Font '''' 10 ''sans-serif'', textAlign = ''start'',
                textBaseline = ''alphabetic'', shadowColor = ''rgba(0, 0, 0, 0)'',
                shadowBlur = 0, shadowOffsetX = 0, shadowOffsetY = 0, lineDash = []\<rparr>,
      saved = [], calls = []\<rparr>"

section \<open>Properties\<close>

subsection \<open>Template store\<close>

lemma loadAll_Stringified:
  "storage storageKey = Some (Stringified ts) \<Longrightarrow> loadAll storage = Inr ts"
  by (simp add: loadAll_def dispatch_checked_def loadTemplates_def run_def initialApp_def)

lemma saveTemplate_storage:
  "nm \<noteq> [] \<Longrightarrow>
   localStorage (dispatch (saveTemplate (Some nm)) s) storageKey =
     Some (Stringified (templates s @
       [\<lparr>Template.name = nm, layers = App.layers s, canvasSize = App.canvasSize s,
         backgroundColor = App.backgroundColor s, borderOptions = App.borderOptions s,
         dateOptions = App.dateOptions s\<rparr>]))"
  by (simp add: dispatch_def run_def saveTemplate_def Let_def JSON_stringify_def)

lemma loadAll_after_save:
  assumes "nm \<noteq> []"
  shows "loadAll (localStorage (dispatch (saveTemplate (Some nm)) s)) =
     Inr (templates s @
       [\<lparr>Template.name = nm, layers = App.layers s, canvasSize = App.canvasSize s,
         backgroundColor = App.backgroundColor s, borderOptions = App.borderOptions s,
         dateOptions = App.dateOptions s\<rparr>])"
proof -
  let ?storage = "localStorage (dispatch (saveTemplate (Some nm)) s)"
  from assms have "?storage storageKey =
     Some (Stringified (templates s @
       [\<lparr>Template.name = nm, layers = App.layers s, canvasSize = App.canvasSize s,
         backgroundColor = App.backgroundColor s, borderOptions = App.borderOptions s,
         dateOptions = App.dateOptions s\<rparr>]))"
    by (rule saveTemplate_storage)
  then show ?thesis by (rule loadAll_Stringified)
qed

text \<open>
  C1, as amended.  A template holds the canvas size, the background colour, the border
  options, the date options and the layers, and no background image.  For every state \<open>s\<close>,
  every non-empty name and every live state: saving the scene of \<open>s\<close>, loading the stored
  list and applying the saved template gives a scene equal to the scene of \<open>s\<close> in those
  five components; the background image reference is the one the live state had.
\<close>

theorem save_load_apply_round_trip:
  "nm \<noteq> [] \<Longrightarrow>
   saveLoadApply nm s live = Some ((scene_of s)\<lparr>sceneBackgroundImage := backgroundImage live\<rparr>)"
  by (simp add: saveLoadApply_def loadAll_after_save)
     (simp add: dispatch_def run_def loadTemplate_def scene_of_def)

theorem save_load_apply_round_trip_witness:
  "''A'' \<noteq> [] \<and>
   saveLoadApply ''A'' withBackgroundImage withBackgroundImage = Some (scene_of withBackgroundImage)"
  using save_load_apply_round_trip [of "''A''" withBackgroundImage withBackgroundImage]
  by (simp add: scene_of_def)

text \<open>
  C1 as stated fails: a scene with a background image is saved as ''A''; the page is
  loaded again, the list is read and the template is applied.  The scene obtained has no
  background image.
\<close>

theorem save_load_apply_loses_background_image:
  "saveLoadApply ''A'' withBackgroundImage
     (initialApp (localStorage (dispatch (saveTemplate (Some ''A'')) withBackgroundImage)))
   \<noteq> Some (scene_of withBackgroundImage)"
  by (simp add: saveLoadApply_def loadAll_after_save)
     (simp add: dispatch_def run_def loadTemplate_def scene_of_def withBackgroundImage_def initialApp_def)

text \<open>
  C8.  \<^verbatim>\<open>deleteTemplate\<close> keeps exactly the entries whose name differs from the given one,
  in their order, and writes that list to the storage, so \<^verbatim>\<open>loadAll()\<close> returns it; after
  saving a template under a name and deleting that name, \<^verbatim>\<open>loadAll()\<close> returns a list with
  no entry of that name.
\<close>

theorem deleteTemplate_removes_name:
  "templates (dispatch (deleteTemplate nm) s) = filter (\<lambda>t. Template.name t \<noteq> nm) (templates s) \<and>
   localStorage (dispatch (deleteTemplate nm) s) storageKey =
     Some (JSON_stringify (filter (\<lambda>t. Template.name t \<noteq> nm) (templates s))) \<and>
   loadAll (localStorage (dispatch (deleteTemplate nm) s)) =
     Inr (filter (\<lambda>t. Template.name t \<noteq> nm) (templates s)) \<and>
   (\<exists>ts. loadAll (localStorage (dispatch (deleteTemplate nm) (dispatch (saveTemplate (Some nm)) s))) = Inr ts \<and>
         (\<forall>t \<in> set ts. Template.name t \<noteq> nm))"
  by (auto simp: dispatch_def run_def deleteTemplate_def saveTemplate_def Let_def JSON_stringify_def
      loadAll_Stringified)

theorem deleteTemplate_removes_name_witness:
  "loadAll (localStorage (dispatch (deleteTemplate ''A'')
      ((initialApp Map.empty)\<lparr>templates := [exampleTemplate, exampleTemplate\<lparr>Template.name := ''B''\<rparr>]\<rparr>)))
   = Inr [exampleTemplate\<lparr>Template.name := ''B''\<rparr>]"
  using deleteTemplate_removes_name [of "''A''"
      "(initialApp Map.empty)\<lparr>templates := [exampleTemplate, exampleTemplate\<lparr>Template.name := ''B''\<rparr>]\<rparr>"]
  by (simp add: exampleTemplate_def)

text \<open>
  C9.  When the storage holds the text of a template list, the mount effect sets the
  templates to that list.  When the storage holds nothing, the empty string or a text that
  does not parse, the effect ends normally with the templates set to the empty list, and
  shows no alert.
\<close>

theorem loadTemplates_list_or_empty:
  "(localStorage s storageKey = Some (Stringified ts) \<longrightarrow>
      dispatch_checked loadTemplates s = Inr (s\<lparr>templates := ts\<rparr>)) \<and>
   (localStorage s storageKey = None \<or> localStorage s storageKey = Some EmptyString \<or>
    localStorage s storageKey = Some Malformed \<longrightarrow>
      (\<exists>es. loadTemplates s = Inr es \<and> run es s = s\<lparr>templates := []\<rparr> \<and> (\<forall>m. Alert m \<notin> set es)))"
  by (auto simp: dispatch_checked_def loadTemplates_def run_def)

theorem loadTemplates_list_or_empty_witness:
  "dispatch_checked loadTemplates (initialApp [storageKey \<mapsto> Stringified [exampleTemplate]])
     = Inr ((initialApp [storageKey \<mapsto> Stringified [exampleTemplate]])\<lparr>templates := [exampleTemplate]\<rparr>) \<and>
   (\<exists>es. loadTemplates ((initialApp [storageKey \<mapsto> Malformed])\<lparr>templates := [exampleTemplate]\<rparr>) = Inr es \<and>
      run es ((initialApp [storageKey \<mapsto> Malformed])\<lparr>templates := [exampleTemplate]\<rparr>)
        = initialApp [storageKey \<mapsto> Malformed])"
  using loadTemplates_list_or_empty [of "initialApp [storageKey \<mapsto> Stringified [exampleTemplate]]" "[exampleTemplate]"]
    loadTemplates_list_or_empty [of "(initialApp [storageKey \<mapsto> Malformed])\<lparr>templates := [exampleTemplate]\<rparr>" "[]"]
  by (auto simp: initialApp_def)

subsection \<open>Deleting the selected layer\<close>

lemma filter_enumerate_drop:
  "map snd (filter (\<lambda>(index, _). index \<noteq> n + i) (enumerate n xs)) = take i xs @ drop (Suc i) xs"
proof (induction xs arbitrary: n i)
  case Nil
  then show ?case by simp
next
  case (Cons a xs)
  show ?case
  proof (cases i)
    case 0
    have "filter (\<lambda>(index, _). index \<noteq> n) (enumerate (Suc n) xs) = enumerate (Suc n) xs"
      by (rule filter_True) (auto simp: in_set_enumerate_eq)
    then show ?thesis using 0 by simp
  next
    case (Suc k)
    have "map snd (filter (\<lambda>(index, _). index \<noteq> Suc n + k) (enumerate (Suc n) xs)) = take k xs @ drop (Suc k) xs"
      by (rule Cons.IH)
    then show ?thesis using Suc by simp
  qed
qed

text \<open>
  C6.  After \<^verbatim>\<open>deleteSelectedLayer\<close> nothing is selected.  With layer \<open>i\<close> selected, the new
  list is the old one without its element \<open>i\<close>; with nothing selected the list is unchanged.
\<close>

theorem deleteSelectedLayer_clears_selection:
  "selectedLayerIndex (dispatch deleteSelectedLayer s) = None \<and>
   (selectedLayerIndex s = None \<longrightarrow> App.layers (dispatch deleteSelectedLayer s) = App.layers s) \<and>
   (\<forall>i. selectedLayerIndex s = Some i \<longrightarrow>
        App.layers (dispatch deleteSelectedLayer s) = take i (App.layers s) @ drop (Suc i) (App.layers s))"
  using filter_enumerate_drop [of 0 _ "App.layers s"]
  by (auto simp: dispatch_def run_def deleteSelectedLayer_def split: option.splits)

theorem deleteSelectedLayer_clears_selection_witness:
  "App.layers (dispatch deleteSelectedLayer
      ((initialApp Map.empty)\<lparr>App.layers := [Text defaultLayer, Image exampleImage], selectedLayerIndex := Some 1\<rparr>))
     = [Text defaultLayer] \<and>
   selectedLayerIndex (dispatch deleteSelectedLayer
      ((initialApp Map.empty)\<lparr>App.layers := [Text defaultLayer, Image exampleImage], selectedLayerIndex := Some 1\<rparr>))
     = None \<and>
   App.layers (dispatch deleteSelectedLayer ((initialApp Map.empty)\<lparr>selectedLayerIndex := None\<rparr>))
     = [Text defaultLayer]"
  using deleteSelectedLayer_clears_selection
      [of "(initialApp Map.empty)\<lparr>App.layers := [Text defaultLayer, Image exampleImage], selectedLayerIndex := Some 1\<rparr>"]
    deleteSelectedLayer_clears_selection [of "(initialApp Map.empty)\<lparr>selectedLayerIndex := None\<rparr>"]
  by (simp add: initialApp_def)

subsection \<open>Hit-testing\<close>

lemma hit_boxContains: "hit rnd m pos layer = boxContains rnd m layer pos"
  by (cases layer) (simp_all add: hit_def hitRect_def boxContains_def boundingBox_def Let_def)

lemma boxContains_exact: "boxContains exact m layer pos = centredBoxContains m layer pos"
proof (cases layer)
  case (Text l)
  then show ?thesis
    unfolding boxContains_def centredBoxContains_def boundingBox_def Let_def abs_le_iff exact_def
    by simp linarith
next
  case (Image l)
  then show ?thesis
    unfolding boxContains_def centredBoxContains_def boundingBox_def Let_def abs_le_iff exact_def
    by simp linarith
qed

lemma findIndex_ge: "findIndex P xs \<ge> - 1"
  by (induction xs) (auto simp: Let_def)

lemma findIndex_miss: "findIndex P xs = - 1 \<longleftrightarrow> (\<forall>a \<in> set xs. \<not> P a)"
proof (induction xs)
  case Nil
  then show ?case by simp
next
  case (Cons a xs)
  have "findIndex P xs + 1 \<noteq> - 1"
    using findIndex_ge [of P xs] by linarith
  with Cons show ?case by (auto simp: Let_def)
qed

lemma findIndex_hit:
  "findIndex P xs = int k \<longleftrightarrow> k < length xs \<and> P (xs ! k) \<and> (\<forall>j < k. \<not> P (xs ! j))"
proof (induction xs arbitrary: k)
  case Nil
  then show ?case by simp
next
  case (Cons a xs)
  show ?case
  proof (cases "P a")
    case True
    then show ?thesis by (cases k) auto
  next
    case False
    show ?thesis
    proof (cases k)
      case 0
      show ?thesis
        using False 0 findIndex_ge [of P xs] by (auto simp: Let_def)
    next
      case (Suc n)
      have "(findIndex P xs + 1 = int (Suc n)) = (findIndex P xs = int n)" by auto
      moreover have "(\<forall>j < Suc n. \<not> P ((a # xs) ! j)) = (\<forall>j < n. \<not> P (xs ! j))"
        using False by (auto simp: less_Suc_eq_0_disj)
      ultimately show ?thesis
        using False Suc Cons.IH [of n] by (auto simp: Let_def)
    qed
  qed
qed

lemma clickedLayer_None:
  "clickedLayer rnd m ls pos = None \<longleftrightarrow> (\<forall>j < length ls. \<not> hit rnd m pos (ls ! j))"
  by (auto simp: clickedLayer_def Let_def findIndex_miss all_set_conv_all_nth)

lemma clickedLayer_Some:
  "clickedLayer rnd m ls pos = Some i \<longleftrightarrow>
     i < length ls \<and> hit rnd m pos (ls ! i) \<and> (\<forall>j. i < j \<and> j < length ls \<longrightarrow> \<not> hit rnd m pos (ls ! j))"
proof
  assume a: "clickedLayer rnd m ls pos = Some i"
  define r where "r = findIndex (hit rnd m pos) (rev ls)"
  from a have ne: "r \<noteq> - 1" and i: "i = nat (int (length ls) - 1 - r)"
    by (auto simp: clickedLayer_def Let_def r_def split: if_splits)
  from ne findIndex_ge [of "hit rnd m pos" "rev ls"] have "r \<ge> 0" unfolding r_def by linarith
  then obtain k where k: "r = int k" using nonneg_int_cases by blast
  from k have h: "k < length ls" "hit rnd m pos (rev ls ! k)" "\<forall>j < k. \<not> hit rnd m pos (rev ls ! j)"
    using findIndex_hit [of "hit rnd m pos" "rev ls" k] unfolding r_def by auto
  have ik: "i = length ls - 1 - k" using i k h(1) by simp
  have "hit rnd m pos (ls ! i)" using h(1,2) ik by (simp add: rev_nth)
  moreover have "\<not> hit rnd m pos (ls ! j)" if "i < j" "j < length ls" for j
  proof -
    have "length ls - 1 - j < k" using that ik h(1) by linarith
    then have "\<not> hit rnd m pos (rev ls ! (length ls - 1 - j))" using h(3) by blast
    moreover have "rev ls ! (length ls - 1 - j) = ls ! j"
      using that by (simp add: rev_nth)
    ultimately show ?thesis by simp
  qed
  ultimately show "i < length ls \<and> hit rnd m pos (ls ! i) \<and> (\<forall>j. i < j \<and> j < length ls \<longrightarrow> \<not> hit rnd m pos (ls ! j))"
    using ik h(1) by auto
next
  assume b0: "i < length ls \<and> hit rnd m pos (ls ! i) \<and> (\<forall>j. i < j \<and> j < length ls \<longrightarrow> \<not> hit rnd m pos (ls ! j))"
  then have b1: "i < length ls" and b2: "hit rnd m pos (ls ! i)"
    and b: "\<forall>j. i < j \<and> j < length ls \<longrightarrow> \<not> hit rnd m pos (ls ! j)" by auto
  define k where "k = length ls - 1 - i"
  have k1: "k < length (rev ls)" using b1 by (simp add: k_def)
  have "rev ls ! k = ls ! i" using b1 k1 by (simp add: k_def rev_nth)
  then have k2: "hit rnd m pos (rev ls ! k)" using b2 by simp
  have k3: "\<not> hit rnd m pos (rev ls ! j)" if "j < k" for j
  proof -
    have "i < length ls - 1 - j" "length ls - 1 - j < length ls" using that b1 k_def by linarith+
    then have "\<not> hit rnd m pos (ls ! (length ls - 1 - j))" using b by blast
    moreover have "rev ls ! j = ls ! (length ls - 1 - j)" using that k1 by (simp add: rev_nth)
    ultimately show ?thesis by simp
  qed
  have "findIndex (hit rnd m pos) (rev ls) = int k"
    using findIndex_hit [of "hit rnd m pos" "rev ls" k] k1 k2 k3 by blast
  moreover have "nat (int (length ls) - 1 - int k) = i" using b1 by (simp add: k_def)
  ultimately show "clickedLayer rnd m ls pos = Some i"
    by (simp add: clickedLayer_def Let_def)
qed

text \<open>
  C3.  Under every rounding, the hit-tester returns \<open>i\<close> exactly when layer \<open>i\<close> is the last of
  the list whose bounding box contains the position, and returns nothing exactly when no
  layer's box contains it.  The box is the one the handler computes; in exact arithmetic
  it is the box of the layer's size centred at its \<open>(x, y)\<close>.
\<close>

theorem hit_test_topmost:
  "(clickedLayer rnd m ls pos = Some i \<longleftrightarrow>
      i < length ls \<and> boxContains rnd m (ls ! i) pos \<and>
      (\<forall>j. i < j \<and> j < length ls \<longrightarrow> \<not> boxContains rnd m (ls ! j) pos)) \<and>
   (clickedLayer rnd m ls pos = None \<longleftrightarrow> (\<forall>j < length ls. \<not> boxContains rnd m (ls ! j) pos)) \<and>
   (boxContains exact m layer pos \<longleftrightarrow> centredBoxContains m layer pos)"
  using clickedLayer_Some [of rnd m ls pos i] clickedLayer_None [of rnd m ls pos]
  by (simp add: hit_boxContains boxContains_exact)

text \<open>
  Two overlapping layers, the text below and the image above: a point in both boxes picks
  the image, a point in the text's box only picks the text.
\<close>

theorem hit_test_topmost_witness:
  "clickedLayer exact exampleMeasure [Text (defaultLayer\<lparr>x := 100, y := 100\<rparr>), Image exampleImage] (Pos 110 110) = Some 1 \<and>
   clickedLayer exact exampleMeasure [Text (defaultLayer\<lparr>x := 100, y := 100\<rparr>), Image exampleImage] (Pos 300 110) = Some 0 \<and>
   clickedLayer exact exampleMeasure [Text (defaultLayer\<lparr>x := 100, y := 100\<rparr>), Image exampleImage] (Pos 1000 110) = None"
proof -
  let ?ls = "[Text (defaultLayer\<lparr>x := 100, y := 100\<rparr>), Image exampleImage]"
  have c1: "boxContains exact exampleMeasure (?ls ! 1) (Pos 110 110)"
    by (simp add: boxContains_def boundingBox_def exampleImage_def exact_def)
  have c2: "boxContains exact exampleMeasure (?ls ! 0) (Pos 300 110)"
    by (simp add: boxContains_def boundingBox_def defaultLayer_def exampleMeasure_def exact_def)
  have c3: "\<not> boxContains exact exampleMeasure (?ls ! 1) (Pos 300 110)"
    by (simp add: boxContains_def boundingBox_def exampleImage_def exact_def)
  have c4: "\<not> boxContains exact exampleMeasure (?ls ! 0) (Pos 1000 110)"
    by (simp add: boxContains_def boundingBox_def defaultLayer_def exampleMeasure_def exact_def)
  have c5: "\<not> boxContains exact exampleMeasure (?ls ! 1) (Pos 1000 110)"
    by (simp add: boxContains_def boundingBox_def exampleImage_def exact_def)
  have "clickedLayer exact exampleMeasure ?ls (Pos 110 110) = Some 1"
    using hit_test_topmost [of exact exampleMeasure ?ls "Pos 110 110" 1, THEN conjunct1] c1 by simp
  moreover have "clickedLayer exact exampleMeasure ?ls (Pos 300 110) = Some 0"
    using hit_test_topmost [of exact exampleMeasure ?ls "Pos 300 110" 0, THEN conjunct1] c2 c3
    by (auto simp: less_Suc_eq)
  moreover have "clickedLayer exact exampleMeasure ?ls (Pos 1000 110) = None"
    using hit_test_topmost [of exact exampleMeasure ?ls "Pos 1000 110" 0, THEN conjunct2, THEN conjunct1] c4 c5
    by (auto simp: less_Suc_eq)
  ultimately show ?thesis by simp
qed

subsection \<open>Editing the selected layer\<close>

lemma as_Layer_obj_of: "as_Layer (obj_of l) = Some l"
  by (cases l) (simp_all add: as_Layer_def as_TextLayer_def as_ImageLayer_def obj_of_TextLayer_def obj_of_ImageLayer_def TextLayer_keys_def ImageLayer_keys_def)

lemma as_Layer_update_Image:
  assumes "map_of (fields (Image l)) prop = Some t" "has_type v t"
  shows "\<exists>l'. as_Layer (AList.update prop v (obj_of (Image l))) = Some (Image l') \<and>
              obj_of (Image l') = AList.update prop v (obj_of (Image l))"
proof -
  from assms(1) consider
      "prop = ''x''" "t = TNumber"
    | "prop = ''y''" "t = TNumber"
    | "prop = ''src''" "t = TString"
    | "prop = ''width''" "t = TNumber"
    | "prop = ''height''" "t = TNumber"
    by (auto split: if_splits)
  then show ?thesis
  proof cases
    case 1
    with assms(2) obtain r where "v = Num r" by (cases v) auto
    with 1 show ?thesis
      by (simp add: as_Layer_def as_ImageLayer_def obj_of_ImageLayer_def ImageLayer_keys_def)
  next
    case 2
    with assms(2) obtain r where "v = Num r" by (cases v) auto
    with 2 show ?thesis
      by (simp add: as_Layer_def as_ImageLayer_def obj_of_ImageLayer_def ImageLayer_keys_def)
  next
    case 3
    with assms(2) obtain r where "v = Str r" by (cases v) auto
    with 3 show ?thesis
      by (simp add: as_Layer_def as_ImageLayer_def obj_of_ImageLayer_def ImageLayer_keys_def)
  next
    case 4
    with assms(2) obtain r where "v = Num r" by (cases v) auto
    with 4 show ?thesis
      by (simp add: as_Layer_def as_ImageLayer_def obj_of_ImageLayer_def ImageLayer_keys_def)
  next
    case 5
    with assms(2) obtain r where "v = Num r" by (cases v) auto
    with 5 show ?thesis
      by (simp add: as_Layer_def as_ImageLayer_def obj_of_ImageLayer_def ImageLayer_keys_def)
  qed
qed

lemma as_Layer_update_Text:
  assumes "map_of (fields (Text l)) prop = Some t" "has_type v t"
  shows "\<exists>l'. as_Layer (AList.update prop v (obj_of (Text l))) = Some (Text l') \<and>
              obj_of (Text l') = AList.update prop v (obj_of (Text l))"
proof -
  from assms(1) consider
      "prop = ''x''" "t = TNumber"
    | "prop = ''y''" "t = TNumber"
    | "prop = ''content''" "t = TString"
    | "prop = ''fontSize''" "t = TNumber"
    | "prop = ''fontFamily''" "t = TString"
    | "prop = ''fontWeight''" "t = TString"
    | "prop = ''color''" "t = TString"
    | "prop = ''strokeColor''" "t = TString"
    | "prop = ''strokeWidth''" "t = TNumber"
    | "prop = ''shadowColor''" "t = TString"
    | "prop = ''shadowBlur''" "t = TNumber"
    | "prop = ''shadowOffsetX''" "t = TNumber"
    | "prop = ''shadowOffsetY''" "t = TNumber"
    | "prop = ''shadowEnabled''" "t = TBoolean"
    by (auto split: if_splits)
  then show ?thesis
  proof cases
    case 1
    with assms(2) obtain r where "v = Num r" by (cases v) auto
    with 1 show ?thesis
      by (simp add: as_Layer_def as_TextLayer_def obj_of_TextLayer_def TextLayer_keys_def)
  next
    case 2
    with assms(2) obtain r where "v = Num r" by (cases v) auto
    with 2 show ?thesis
      by (simp add: as_Layer_def as_TextLayer_def obj_of_TextLayer_def TextLayer_keys_def)
  next
    case 3
    with assms(2) obtain r where "v = Str r" by (cases v) auto
    with 3 show ?thesis
      by (simp add: as_Layer_def as_TextLayer_def obj_of_TextLayer_def TextLayer_keys_def)
  next
    case 4
    with assms(2) obtain r where "v = Num r" by (cases v) auto
    with 4 show ?thesis
      by (simp add: as_Layer_def as_TextLayer_def obj_of_TextLayer_def TextLayer_keys_def)
  next
    case 5
    with assms(2) obtain r where "v = Str r" by (cases v) auto
    with 5 show ?thesis
      by (simp add: as_Layer_def as_TextLayer_def obj_of_TextLayer_def TextLayer_keys_def)
  next
    case 6
    with assms(2) obtain r where "v = Str r" by (cases v) auto
    with 6 show ?thesis
      by (simp add: as_Layer_def as_TextLayer_def obj_of_TextLayer_def TextLayer_keys_def)
  next
    case 7
    with assms(2) obtain r where "v = Str r" by (cases v) auto
    with 7 show ?thesis
      by (simp add: as_Layer_def as_TextLayer_def obj_of_TextLayer_def TextLayer_keys_def)
  next
    case 8
    with assms(2) obtain r where "v = Str r" by (cases v) auto
    with 8 show ?thesis
      by (simp add: as_Layer_def as_TextLayer_def obj_of_TextLayer_def TextLayer_keys_def)
  next
    case 9
    with assms(2) obtain r where "v = Num r" by (cases v) auto
    with 9 show ?thesis
      by (simp add: as_Layer_def as_TextLayer_def obj_of_TextLayer_def TextLayer_keys_def)
  next
    case 10
    with assms(2) obtain r where "v = Str r" by (cases v) auto
    with 10 show ?thesis
      by (simp add: as_Layer_def as_TextLayer_def obj_of_TextLayer_def TextLayer_keys_def)
  next
    case 11
    with assms(2) obtain r where "v = Num r" by (cases v) auto
    with 11 show ?thesis
      by (simp add: as_Layer_def as_TextLayer_def obj_of_TextLayer_def TextLayer_keys_def)
  next
    case 12
    with assms(2) obtain r where "v = Num r" by (cases v) auto
    with 12 show ?thesis
      by (simp add: as_Layer_def as_TextLayer_def obj_of_TextLayer_def TextLayer_keys_def)
  next
    case 13
    with assms(2) obtain r where "v = Num r" by (cases v) auto
    with 13 show ?thesis
      by (simp add: as_Layer_def as_TextLayer_def obj_of_TextLayer_def TextLayer_keys_def)
  next
    case 14
    with assms(2) obtain r where "v = Bool r" by (cases v) auto
    with 14 show ?thesis
      by (simp add: as_Layer_def as_TextLayer_def obj_of_TextLayer_def TextLayer_keys_def)
  qed
qed

lemma as_Layer_update:
  assumes "map_of (fields l) prop = Some t" "has_type v t"
  shows "\<exists>l'. as_Layer (AList.update prop v (obj_of l)) = Some l' \<and>
              obj_of l' = AList.update prop v (obj_of l) \<and> layer_type l' = layer_type l"
proof (cases l)
  case (Text tl)
  with assms as_Layer_update_Text [of tl "prop" t v] show ?thesis by auto
next
  case (Image il)
  with assms as_Layer_update_Image [of il "prop" t v] show ?thesis by auto
qed

lemma typed_layers_unchanged:
  "\<forall>p \<in> set (enumerate n ls). fst p \<noteq> k \<Longrightarrow>
   typed_layers (map (\<lambda>(index, layer). if index = k then f layer else obj_of layer) (enumerate n ls)) = Inr ls"
  by (induction ls arbitrary: n) (auto simp: as_Layer_obj_of)

lemma typed_layers_at:
  "i < length ls \<Longrightarrow> as_Layer (f (ls ! i)) = Some l' \<Longrightarrow>
   typed_layers (map (\<lambda>(index, layer). if index = n + i then f layer else obj_of layer) (enumerate n ls))
     = Inr (ls[i := l'])"
proof (induction ls arbitrary: n i)
  case Nil
  then show ?case by simp
next
  case (Cons a ls)
  show ?case
  proof (cases i)
    case 0
    have "typed_layers (map (\<lambda>(index, layer). if index = n then f layer else obj_of layer) (enumerate (Suc n) ls)) = Inr ls"
      by (rule typed_layers_unchanged) (auto simp: in_set_enumerate_eq)
    with 0 Cons.prems show ?thesis by simp
  next
    case (Suc k)
    with Cons.prems have "k < length ls" "as_Layer (f (ls ! k)) = Some l'" by auto
    then have "typed_layers (map (\<lambda>(index, layer). if index = Suc n + k then f layer else obj_of layer) (enumerate (Suc n) ls))
       = Inr (ls[k := l'])" by (rule Cons.IH)
    with Suc show ?thesis by (simp add: as_Layer_obj_of)
  qed
qed

lemma typed_layers_fail:
  "i < length ls \<Longrightarrow> as_Layer (f (ls ! i)) = None \<Longrightarrow>
   typed_layers (map (\<lambda>(index, layer). if index = n + i then f layer else obj_of layer) (enumerate n ls))
     = Inl (NotALayer (f (ls ! i)))"
proof (induction ls arbitrary: n i)
  case Nil
  then show ?case by simp
next
  case (Cons a ls)
  show ?case
  proof (cases i)
    case 0
    with Cons.prems show ?thesis by simp
  next
    case (Suc k)
    with Cons.prems have "k < length ls" "as_Layer (f (ls ! k)) = None" by auto
    then have "typed_layers (map (\<lambda>(index, layer). if index = Suc n + k then f layer else obj_of layer) (enumerate (Suc n) ls))
       = Inl (NotALayer (f (ls ! k)))" by (rule Cons.IH)
    with Suc show ?thesis by (simp add: as_Layer_obj_of)
  qed
qed

lemma typed_spreadLayers:
  assumes "i < length ls" "as_Layer (AList.update prop v (obj_of (ls ! i))) = Some l'"
  shows "typed_layers (spreadLayers prop v i ls) = Inr (ls[i := l'])"
proof -
  have "typed_layers (map (\<lambda>(index, layer). if index = 0 + i then AList.update prop v (obj_of layer) else obj_of layer)
       (enumerate 0 ls)) = Inr (ls[i := l'])"
    using assms by (intro typed_layers_at) auto
  then show ?thesis by (simp add: spreadLayers_def)
qed

lemma handleLayerPropChange_typed:
  assumes "selectedLayerIndex s = Some i" "i < length (App.layers s)"
    and "map_of (fields (App.layers s ! i)) prop = Some t" "has_type v t"
  shows "\<exists>l'. handleLayerPropChange prop v s = Inr [SetLayers ((App.layers s)[i := l'])] \<and>
            map_of (obj_of l') = (map_of (obj_of (App.layers s ! i)))(prop \<mapsto> v) \<and>
            layer_type l' = layer_type (App.layers s ! i)"
proof -
  obtain l' where l': "as_Layer (AList.update prop v (obj_of (App.layers s ! i))) = Some l'"
    "obj_of l' = AList.update prop v (obj_of (App.layers s ! i))"
    "layer_type l' = layer_type (App.layers s ! i)"
    using as_Layer_update [OF assms(3,4)] by auto
  have "typed_layers (spreadLayers prop v i (App.layers s)) = Inr ((App.layers s)[i := l'])"
    using assms(2) l'(1) by (rule typed_spreadLayers)
  with assms(1) have "handleLayerPropChange prop v s = Inr [SetLayers ((App.layers s)[i := l'])]"
    by (simp add: handleLayerPropChange_def)
  moreover have "map_of (obj_of l') = (map_of (obj_of (App.layers s ! i)))(prop \<mapsto> v)"
    by (simp add: l'(2) update_conv')
  ultimately show ?thesis using l'(3) by blast
qed

lemma call_site_typed:
  assumes "call_possible c l"
  shows "\<exists>t. map_of (fields l) (call_prop c) = Some t \<and> has_type (call_value c) t"
  using assms by (cases c; cases l) (simp_all add: call_possible_def shadowControls_def)

lemma call_prop_not_type: "call_prop c \<noteq> ''type''"
  by (cases c) simp_all

lemma type_of_obj: "map_of (obj_of l) ''type'' = Some (Str (layer_type l))"
  by (cases l) (simp_all add: obj_of_TextLayer_def obj_of_ImageLayer_def)

lemma spreadLayers_nth:
  "j < length ls \<Longrightarrow>
   spreadLayers prop v i ls ! j = (if j = i then AList.update prop v (obj_of (ls ! j)) else obj_of (ls ! j))"
  by (simp add: spreadLayers_def nth_enumerate_eq)

text \<open>
  C5.  With no layer selected \<^verbatim>\<open>handleLayerPropChange\<close> calls no setter, whatever the key and
  the value.  With layer \<open>i\<close> selected, each of the fifteen calls the component can make sets
  the list to the old one with layer \<open>i\<close> replaced by a layer of the same variant that has the
  new value in the named field and the old value in every other.  For every key other than
  \<^verbatim>\<open>type\<close> and every value at all, the array passed to \<^verbatim>\<open>setLayers\<close> has the length of the
  old list, every element keeps its tag, the selected element is the old one with the
  named field set, and the others are the old ones.
\<close>

theorem handleLayerPropChange_preserves_shape:
  "(selectedLayerIndex s = None \<longrightarrow> handleLayerPropChange prop v s = Inr []) \<and>
   (\<forall>i c. selectedLayerIndex s = Some i \<and> i < length (App.layers s) \<and>
          call_possible c (App.layers s ! i) \<longrightarrow>
      call_prop c \<noteq> ''type'' \<and>
      (\<exists>l'. handleLayerPropChange (call_prop c) (call_value c) s =
              Inr [SetLayers ((App.layers s)[i := l'])] \<and>
            map_of (obj_of l') = (map_of (obj_of (App.layers s ! i)))(call_prop c \<mapsto> call_value c) \<and>
            layer_type l' = layer_type (App.layers s ! i))) \<and>
   (\<forall>i j. prop \<noteq> ''type'' \<and> j < length ls \<longrightarrow>
      length (spreadLayers prop v i ls) = length ls \<and>
      map_of (spreadLayers prop v i ls ! j) ''type'' = Some (Str (layer_type (ls ! j))) \<and>
      map_of (spreadLayers prop v i ls ! j) =
        (if j = i then (map_of (obj_of (ls ! j)))(prop \<mapsto> v) else map_of (obj_of (ls ! j))))"
proof (intro conjI allI impI)
  show "handleLayerPropChange prop v s = Inr []" if "selectedLayerIndex s = None"
    using that by (simp add: handleLayerPropChange_def)
next
  fix i c
  show "call_prop c \<noteq> ''type''" by (rule call_prop_not_type)
next
  fix i c
  assume a: "selectedLayerIndex s = Some i \<and> i < length (App.layers s) \<and>
          call_possible c (App.layers s ! i)"
  then obtain t where "map_of (fields (App.layers s ! i)) (call_prop c) = Some t"
    "has_type (call_value c) t"
    using call_site_typed by blast
  with a show "\<exists>l'. handleLayerPropChange (call_prop c) (call_value c) s =
              Inr [SetLayers ((App.layers s)[i := l'])] \<and>
            map_of (obj_of l') = (map_of (obj_of (App.layers s ! i)))(call_prop c \<mapsto> call_value c) \<and>
            layer_type l' = layer_type (App.layers s ! i)"
    using handleLayerPropChange_typed by blast
next
  fix i j
  show "length (spreadLayers prop v i ls) = length ls"
    by (simp add: spreadLayers_def)
next
  fix i j
  assume "prop \<noteq> ''type'' \<and> j < length ls"
  then show "map_of (spreadLayers prop v i ls ! j) ''type'' = Some (Str (layer_type (ls ! j)))"
    by (auto simp: spreadLayers_nth update_conv' type_of_obj)
next
  fix i j
  assume "prop \<noteq> ''type'' \<and> j < length ls"
  then show "map_of (spreadLayers prop v i ls ! j) =
        (if j = i then (map_of (obj_of (ls ! j)))(prop \<mapsto> v) else map_of (obj_of (ls ! j)))"
    by (simp add: spreadLayers_nth update_conv')
qed

text \<open>
  The font-size control on the default text layer; the same call with nothing selected;
  and the key \<^verbatim>\<open>width\<close>, which a text layer does not have, with a string for a value.
\<close>

theorem handleLayerPropChange_preserves_shape_witness:
  "handleLayerPropChange ''fontSize'' (Num 48) ((initialApp Map.empty)\<lparr>selectedLayerIndex := None\<rparr>) = Inr [] \<and>
   (\<exists>l'. handleLayerPropChange ''fontSize'' (Num 48) (initialApp Map.empty) = Inr [SetLayers [l']] \<and>
         map_of (obj_of l') = (map_of (obj_of (Text defaultLayer)))(''fontSize'' \<mapsto> Num 48) \<and>
         layer_type l' = ''text'') \<and>
   map_of (spreadLayers ''width'' (Str ''wide'') 0 [Text defaultLayer] ! 0) ''type'' = Some (Str ''text'')"
proof -
  have n: "handleLayerPropChange ''fontSize'' (Num 48) ((initialApp Map.empty)\<lparr>selectedLayerIndex := None\<rparr>) = Inr []"
    using handleLayerPropChange_preserves_shape
      [of "(initialApp Map.empty)\<lparr>selectedLayerIndex := None\<rparr>" "''fontSize''" "Num 48", THEN conjunct1]
    by simp
  have p: "call_possible (FontSizeRange 48) (App.layers (initialApp Map.empty) ! 0)"
    by (simp add: call_possible_def initialApp_def)
  have "selectedLayerIndex (initialApp Map.empty) = Some 0 \<and> 0 < length (App.layers (initialApp Map.empty))"
    by (simp add: initialApp_def)
  with p have "\<exists>l'. handleLayerPropChange (call_prop (FontSizeRange 48)) (call_value (FontSizeRange 48)) (initialApp Map.empty) =
              Inr [SetLayers ((App.layers (initialApp Map.empty))[0 := l'])] \<and>
            map_of (obj_of l') = (map_of (obj_of (App.layers (initialApp Map.empty) ! 0)))
               (call_prop (FontSizeRange 48) \<mapsto> call_value (FontSizeRange 48)) \<and>
            layer_type l' = layer_type (App.layers (initialApp Map.empty) ! 0)"
    using handleLayerPropChange_preserves_shape
      [of "initialApp Map.empty" "''fontSize''" "Num 48", THEN conjunct2, THEN conjunct1]
    by blast
  then have c: "\<exists>l'. handleLayerPropChange ''fontSize'' (Num 48) (initialApp Map.empty) = Inr [SetLayers [l']] \<and>
         map_of (obj_of l') = (map_of (obj_of (Text defaultLayer)))(''fontSize'' \<mapsto> Num 48) \<and>
         layer_type l' = ''text''"
    by (simp add: initialApp_def)
  have h: "''width'' \<noteq> ''type'' \<and> (0::nat) < length [Text defaultLayer]"
    by simp
  have "map_of (spreadLayers ''width'' (Str ''wide'') 0 [Text defaultLayer] ! 0) ''type'' =
      Some (Str (layer_type ([Text defaultLayer] ! 0)))"
    using handleLayerPropChange_preserves_shape
      [of "initialApp Map.empty" "''width''" "Str ''wide''" "[Text defaultLayer]",
        THEN conjunct2, THEN conjunct2, rule_format, of 0 0] h
    by blast
  then have w: "map_of (spreadLayers ''width'' (Str ''wide'') 0 [Text defaultLayer] ! 0) ''type'' = Some (Str ''text'')"
    by simp
  from n c w show ?thesis by blast
qed

text \<open>
  The key \<^verbatim>\<open>type\<close>, which no caller passes, is the one key whose spread sets the tag.
\<close>

lemma spread_of_type_key:
  "map_of (spreadLayers ''type'' (Str ''image'') 0 [Text defaultLayer] ! 0) ''type'' = Some (Str ''image'')"
  by (simp add: spreadLayers_nth update_conv')

subsection \<open>Dragging\<close>

lemma as_Layer_update_x: "as_Layer (AList.update ''x'' (Num r) (obj_of l)) = Some (with_x r l)"
  by (cases l)
    (simp_all add: as_Layer_def as_TextLayer_def as_ImageLayer_def obj_of_TextLayer_def
      obj_of_ImageLayer_def TextLayer_keys_def ImageLayer_keys_def)

lemma as_Layer_update_y: "as_Layer (AList.update ''y'' (Num r) (obj_of l)) = Some (with_y r l)"
  by (cases l)
    (simp_all add: as_Layer_def as_TextLayer_def as_ImageLayer_def obj_of_TextLayer_def
      obj_of_ImageLayer_def TextLayer_keys_def ImageLayer_keys_def)

lemma handleLayerPropChange_x:
  assumes "selectedLayerIndex s = Some i" "i < length (App.layers s)"
  shows "handleLayerPropChange ''x'' (Num r) s = Inr [SetLayers ((App.layers s)[i := with_x r (App.layers s ! i)])]"
proof -
  have "typed_layers (spreadLayers ''x'' (Num r) i (App.layers s)) =
      Inr ((App.layers s)[i := with_x r (App.layers s ! i)])"
    using assms(2) as_Layer_update_x by (rule typed_spreadLayers)
  with assms show ?thesis by (simp add: handleLayerPropChange_def)
qed

lemma handleLayerPropChange_y:
  assumes "selectedLayerIndex s = Some i" "i < length (App.layers s)"
  shows "handleLayerPropChange ''y'' (Num r) s = Inr [SetLayers ((App.layers s)[i := with_y r (App.layers s ! i)])]"
proof -
  have "typed_layers (spreadLayers ''y'' (Num r) i (App.layers s)) =
      Inr ((App.layers s)[i := with_y r (App.layers s ! i)])"
    using assms(2) as_Layer_update_y by (rule typed_spreadLayers)
  with assms show ?thesis by (simp add: handleLayerPropChange_def)
qed

text \<open>
  Every move of a drag, under every rounding: the list set last is the old one with the new
  \<open>y\<close> in the selected layer, and the old \<open>x\<close>.
\<close>

lemma handleMouseMove_drag:
  assumes "isDragging (dragInfo s)" "targetIndex (dragInfo s) \<noteq> None"
    and "selectedLayerIndex s = Some i" "i < length (App.layers s)"
    and "getMousePos rnd canvas e = Some pos"
  shows "dispatch_checked (handleMouseMove rnd (Some canvas) e) s =
     Inr (s\<lparr>App.layers := (App.layers s)[i := with_y (rnd (pos_y pos - startY (dragInfo s))) (App.layers s ! i)]\<rparr>)"
  using assms
  by (auto simp: dispatch_checked_def handleMouseMove_def handleLayerPropChange_x handleLayerPropChange_y run_def)

lemma rnd_small:
  assumes "\<forall>k::int. \<bar>k\<bar> \<le> 2 ^ 53 \<longrightarrow> rnd (real_of_int k) = real_of_int k"
  shows "rnd 0 = 0" "rnd 1 = 1" "rnd 10 = 10" "rnd 25 = 25" "rnd 75 = 75" "rnd 110 = 110"
    "rnd 125 = 125" "rnd 140 = 140" "rnd 150 = 150" "rnd 290 = 290" "rnd 300 = 300"
  using assms [rule_format, of 0] assms [rule_format, of 1] assms [rule_format, of 10]
    assms [rule_format, of 25] assms [rule_format, of 75] assms [rule_format, of 110]
    assms [rule_format, of 125] assms [rule_format, of 140] assms [rule_format, of 150]
    assms [rule_format, of 290] assms [rule_format, of 300]
  by simp_all

lemma mouse_down_example:
  assumes "\<forall>k::int. \<bar>k\<bar> \<le> 2 ^ 53 \<longrightarrow> rnd (real_of_int k) = real_of_int k"
  shows "dispatch (handleMouseDown rnd exampleMeasure (Some exampleCanvas) \<lparr>clientX = 110, clientY = 110\<rparr>) dragStart
     = dragStart\<lparr>selectedLayerIndex := Some 0,
         dragInfo := \<lparr>isDragging = True, targetIndex = Some 0, startX = 10, startY = 10\<rparr>\<rparr>"
  by (simp add: dispatch_def run_def handleMouseDown_def getMousePos_def exampleCanvas_def
      clickedLayer_def hit_def hitRect_def dragStart_def exampleImage_def Let_def
      rnd_small [OF assms])

text \<open>
  C4 on the code.  An image layer centred at \<open>(100, 100)\<close> is grabbed at \<open>(110, 110)\<close>, which
  records the offset \<open>(10, 10)\<close>, and the pointer moves to \<open>(300, 150)\<close>.  The layer ends at
  \<open>(100, 140)\<close>: the second call of \<^verbatim>\<open>handleLayerPropChange\<close> maps over the same \<^verbatim>\<open>layers\<close>
  as the first, and its \<^verbatim>\<open>setLayers\<close> replaces the list that held the new \<open>x\<close>.  This holds
  under every rounding that leaves the integers up to \<open>2^53\<close> as they are, as that of
  doubles does.
\<close>

theorem drag_moves_layer_in_y_only:
  assumes "\<forall>k::int. \<bar>k\<bar> \<le> 2 ^ 53 \<longrightarrow> rnd (real_of_int k) = real_of_int k"
  shows "dispatch_checked (handleMouseMove rnd (Some exampleCanvas) \<lparr>clientX = 300, clientY = 150\<rparr>)
     (dispatch (handleMouseDown rnd exampleMeasure (Some exampleCanvas) \<lparr>clientX = 110, clientY = 110\<rparr>) dragStart)
   = Inr (dragStart
       \<lparr>App.layers := [Image (exampleImage\<lparr>y := 140\<rparr>)],
        selectedLayerIndex := Some 0,
        dragInfo := \<lparr>isDragging = True, targetIndex = Some 0, startX = 10, startY = 10\<rparr>\<rparr>) \<and>
   layer_x (Image (exampleImage\<lparr>y := 140\<rparr>)) = 100 \<and> layer_y (Image (exampleImage\<lparr>y := 140\<rparr>)) = 140"
proof -
  let ?s1 = "dragStart\<lparr>selectedLayerIndex := Some 0,
         dragInfo := \<lparr>isDragging = True, targetIndex = Some 0, startX = 10, startY = 10\<rparr>\<rparr>"
  have pos: "getMousePos rnd exampleCanvas \<lparr>clientX = 300, clientY = 150\<rparr> = Some (Pos 300 150)"
    by (simp add: getMousePos_def exampleCanvas_def rnd_small [OF assms])
  have "dispatch_checked (handleMouseMove rnd (Some exampleCanvas) \<lparr>clientX = 300, clientY = 150\<rparr>) ?s1 =
     Inr (?s1\<lparr>App.layers := (App.layers ?s1)[0 := with_y (rnd (pos_y (Pos 300 150) - startY (dragInfo ?s1))) (App.layers ?s1 ! 0)]\<rparr>)"
    by (rule handleMouseMove_drag [OF _ _ _ _ pos]) (simp_all add: dragStart_def)
  then show ?thesis
    by (simp add: mouse_down_example [OF assms] rnd_small [OF assms])
       (simp add: dragStart_def exampleImage_def)
qed

text \<open>
  With the rounding that changes nothing: the pointer-down has started the drag, so the
  move takes the branch that updates the layer, and the layer's centre afterwards is
  \<open>(100, 140)\<close>.
\<close>

theorem drag_moves_layer_in_y_only_witness:
  "isDragging (dragInfo (dispatch (handleMouseDown exact exampleMeasure (Some exampleCanvas)
       \<lparr>clientX = 110, clientY = 110\<rparr>) dragStart)) \<and>
   targetIndex (dragInfo (dispatch (handleMouseDown exact exampleMeasure (Some exampleCanvas)
       \<lparr>clientX = 110, clientY = 110\<rparr>) dragStart)) = Some 0 \<and>
   dispatch_checked (handleMouseMove exact (Some exampleCanvas) \<lparr>clientX = 300, clientY = 150\<rparr>)
     (dispatch (handleMouseDown exact exampleMeasure (Some exampleCanvas) \<lparr>clientX = 110, clientY = 110\<rparr>) dragStart)
   = Inr (dragStart
       \<lparr>App.layers := [Image (exampleImage\<lparr>y := 140\<rparr>)],
        selectedLayerIndex := Some 0,
        dragInfo := \<lparr>isDragging = True, targetIndex = Some 0, startX = 10, startY = 10\<rparr>\<rparr>) \<and>
   map_sum id (\<lambda>s'. map (\<lambda>l. (layer_x l, layer_y l)) (App.layers s'))
     (dispatch_checked (handleMouseMove exact (Some exampleCanvas) \<lparr>clientX = 300, clientY = 150\<rparr>)
        (dispatch (handleMouseDown exact exampleMeasure (Some exampleCanvas) \<lparr>clientX = 110, clientY = 110\<rparr>) dragStart))
   = Inr [(100, 140)]"
proof -
  have e: "\<forall>k::int. \<bar>k\<bar> \<le> 2 ^ 53 \<longrightarrow> exact (real_of_int k) = real_of_int k"
    by (simp add: exact_def)
  show ?thesis
    using drag_moves_layer_in_y_only [OF e]
    by (simp add: mouse_down_example [OF e])
qed

subsection \<open>Rendering\<close>

lemma calls_assign: "calls (assign f ctx) = calls ctx"
  by (simp add: assign_def)

lemma calls_call: "calls (call d ctx) = calls ctx @ [(d, state ctx)]"
  by (simp add: call_def)

lemma calls_save: "calls (save ctx) = calls ctx"
  by (simp add: save_def)

lemma calls_restore: "calls (restore ctx) = calls ctx"
  by (simp add: restore_def split: list.splits)

lemma drawn_drawText:
  "map fst (calls (drawText l ctx)) = map fst (calls ctx) @ layerCalls rnd images (Text l)"
  by (simp add: drawText_def layerCalls_def Let_def calls_restore calls_call calls_assign calls_save)

lemma drawn_paintLayer:
  "map fst (calls (paintLayer rnd images layer ctx)) = map fst (calls ctx) @ layerCalls rnd images layer"
proof (cases layer)
  case (Text l)
  then show ?thesis using drawn_drawText [of l ctx rnd images] by (simp add: paintLayer_def)
next
  case (Image l)
  then show ?thesis
    by (simp add: paintLayer_def layerCalls_def drawImage_def calls_call split: option.splits)
qed

lemma drawn_paintLayers:
  "map fst (calls (paintLayers rnd images ls ctx)) =
     map fst (calls ctx) @ concat (map (layerCalls rnd images) ls)"
  unfolding paintLayers_def
  by (induction ls arbitrary: ctx) (simp_all add: drawn_paintLayer)

lemma drawn_paintBackground:
  "map fst (calls (paintBackground canvas s ctx)) = map fst (calls ctx) @ backgroundCalls canvas s"
  by (simp add: paintBackground_def backgroundCalls_def calls_call calls_assign split: option.splits)

lemma drawn_paintBorder:
  "map fst (calls (paintBorder canvas s ctx)) = map fst (calls ctx) @ borderCalls canvas s"
  by (simp add: paintBorder_def borderCalls_def calls_call calls_assign)

lemma drawn_paintDate:
  "map fst (calls (paintDate rnd today canvas s ctx)) = map fst (calls ctx) @ dateCalls rnd today canvas s"
  by (simp add: paintDate_def dateCalls_def calls_call calls_assign Let_def)

lemma drawn_paintSelection:
  "map fst (calls (paintSelection rnd m s ctx)) = map fst (calls ctx) @ selectionCalls rnd m s"
proof (cases "selectedLayer s")
  case None
  then show ?thesis by (simp add: paintSelection_def selectionCalls_def)
next
  case (Some layer)
  then show ?thesis
    by (cases layer)
      (simp_all add: paintSelection_def selectionCalls_def drawSelection_def selectionRect_def
        boundingBox_def Let_def calls_call calls_assign)
qed

text \<open>
  C7.  The calls one run of the render effect adds to the context are, in this order: the
  clearing of the canvas, the background, the border, the date stamp, the calls of each
  layer in list order, and the selection outline.  Without a canvas it draws nothing.
\<close>

theorem render_paint_order:
  "map fst (calls (render rnd m today (Some canvas) s ctx)) =
     map fst (calls ctx) @
     [ClearRect 0 0 (HTMLCanvasElement.width canvas) (HTMLCanvasElement.height canvas)] @
     backgroundCalls canvas s @ borderCalls canvas s @ dateCalls rnd today canvas s @
     concat (map (layerCalls rnd (imageObjects s)) (App.layers s)) @
     selectionCalls rnd m s \<and>
   render rnd m today None s ctx = ctx"
  by (simp add: render_def Let_def drawn_paintSelection drawn_paintLayers drawn_paintDate
      drawn_paintBorder drawn_paintBackground calls_call)

subsection \<open>Images that are not decoded yet\<close>

lemma handleMouseDown_hit:
  assumes "getMousePos rnd canvas e = Some pos" "clickedLayer rnd m (App.layers s) pos = Some i"
  shows "dispatch (handleMouseDown rnd m (Some canvas) e) s =
     s\<lparr>selectedLayerIndex := Some i,
       dragInfo := \<lparr>isDragging = True, targetIndex = Some i,
                    startX = rnd (pos_x pos - layer_x (App.layers s ! i)),
                    startY = rnd (pos_y pos - layer_y (App.layers s ! i))\<rparr>\<rparr>"
  using assms by (simp add: dispatch_def run_def handleMouseDown_def)

lemma clickedLayer_above:
  assumes "i < length ls" "boxContains rnd m (ls ! i) pos"
  shows "\<exists>j. clickedLayer rnd m ls pos = Some j \<and> i \<le> j \<and> j < length ls \<and>
             boxContains rnd m (ls ! j) pos \<and>
             (\<forall>k. j < k \<and> k < length ls \<longrightarrow> \<not> boxContains rnd m (ls ! k) pos)"
proof -
  have "clickedLayer rnd m ls pos \<noteq> None"
    using assms clickedLayer_None [of rnd m ls pos] by (auto simp: hit_boxContains)
  then obtain j where j: "clickedLayer rnd m ls pos = Some j" by auto
  then have p: "j < length ls" "boxContains rnd m (ls ! j) pos"
    "\<forall>k. j < k \<and> k < length ls \<longrightarrow> \<not> boxContains rnd m (ls ! k) pos"
    using clickedLayer_Some [of rnd m ls pos j] by (auto simp: hit_boxContains)
  have "i \<le> j"
  proof (rule ccontr)
    assume "\<not> i \<le> j"
    then have "j < i \<and> i < length ls" using assms(1) by simp
    then have "\<not> boxContains rnd m (ls ! i) pos" using p(3) by blast
    with assms(2) show False by simp
  qed
  with j p show ?thesis by blast
qed

text \<open>
  C10, as amended.  For an image layer at index \<open>i\<close> whose source is not in the cache, the
  layer loop leaves the context as it is (it paints as if the layer were not in the list).
  A pointer-down inside the layer's declared box selects, and starts dragging, the last
  layer of the list whose box contains the point; that layer is at \<open>i\<close> or later, and it is
  layer \<open>i\<close> itself when no later layer's box contains the point.
\<close>

theorem undecoded_image_skipped_but_hit:
  assumes "i < length (App.layers s)" "App.layers s ! i = Image l" "imageObjects s (src l) = None"
  shows "paintLayer rnd (imageObjects s) (Image l) ctx = ctx \<and>
    paintLayers rnd (imageObjects s) (App.layers s) ctx =
      paintLayers rnd (imageObjects s) (take i (App.layers s) @ drop (Suc i) (App.layers s)) ctx \<and>
    (getMousePos rnd canvas e = Some pos \<and> boxContains rnd m (Image l) pos \<longrightarrow>
       (\<exists>j. i \<le> j \<and> j < length (App.layers s) \<and>
            boxContains rnd m (App.layers s ! j) pos \<and>
            (\<forall>k. j < k \<and> k < length (App.layers s) \<longrightarrow> \<not> boxContains rnd m (App.layers s ! k) pos) \<and>
            dispatch (handleMouseDown rnd m (Some canvas) e) s =
              s\<lparr>selectedLayerIndex := Some j,
                dragInfo := \<lparr>isDragging = True, targetIndex = Some j,
                             startX = rnd (pos_x pos - layer_x (App.layers s ! j)),
                             startY = rnd (pos_y pos - layer_y (App.layers s ! j))\<rparr>\<rparr> \<and>
            ((\<forall>k. i < k \<and> k < length (App.layers s) \<longrightarrow> \<not> boxContains rnd m (App.layers s ! k) pos)
               \<longrightarrow> j = i)))"
proof (intro conjI impI)
  show skip: "paintLayer rnd (imageObjects s) (Image l) ctx = ctx" for ctx
    using assms(3) by (simp add: paintLayer_def)
  have "App.layers s = take i (App.layers s) @ Image l # drop (Suc i) (App.layers s)"
    using assms(1,2) by (metis id_take_nth_drop)
  then have "paintLayers rnd (imageObjects s) (App.layers s) ctx =
      paintLayers rnd (imageObjects s) (take i (App.layers s) @ Image l # drop (Suc i) (App.layers s)) ctx"
    by simp
  then show "paintLayers rnd (imageObjects s) (App.layers s) ctx =
      paintLayers rnd (imageObjects s) (take i (App.layers s) @ drop (Suc i) (App.layers s)) ctx"
    by (simp add: paintLayers_def skip)
next
  assume a: "getMousePos rnd canvas e = Some pos \<and> boxContains rnd m (Image l) pos"
  then have "boxContains rnd m (App.layers s ! i) pos" using assms(2) by simp
  then obtain j where j: "clickedLayer rnd m (App.layers s) pos = Some j" "i \<le> j"
    "j < length (App.layers s)" "boxContains rnd m (App.layers s ! j) pos"
    "\<forall>k. j < k \<and> k < length (App.layers s) \<longrightarrow> \<not> boxContains rnd m (App.layers s ! k) pos"
    using clickedLayer_above [OF assms(1)] by blast
  have d: "dispatch (handleMouseDown rnd m (Some canvas) e) s =
              s\<lparr>selectedLayerIndex := Some j,
                dragInfo := \<lparr>isDragging = True, targetIndex = Some j,
                             startX = rnd (pos_x pos - layer_x (App.layers s ! j)),
                             startY = rnd (pos_y pos - layer_y (App.layers s ! j))\<rparr>\<rparr>"
    using a j(1) by (intro handleMouseDown_hit) auto
  have t: "j = i"
    if "\<forall>k. i < k \<and> k < length (App.layers s) \<longrightarrow> \<not> boxContains rnd m (App.layers s ! k) pos"
  proof (rule ccontr)
    assume "j \<noteq> i"
    then have "i < j \<and> j < length (App.layers s)" using j(2,3) by simp
    then have "\<not> boxContains rnd m (App.layers s ! j) pos" using that by blast
    with j(4) show False by simp
  qed
  from j d t show "\<exists>j. i \<le> j \<and> j < length (App.layers s) \<and>
            boxContains rnd m (App.layers s ! j) pos \<and>
            (\<forall>k. j < k \<and> k < length (App.layers s) \<longrightarrow> \<not> boxContains rnd m (App.layers s ! k) pos) \<and>
            dispatch (handleMouseDown rnd m (Some canvas) e) s =
              s\<lparr>selectedLayerIndex := Some j,
                dragInfo := \<lparr>isDragging = True, targetIndex = Some j,
                             startX = rnd (pos_x pos - layer_x (App.layers s ! j)),
                             startY = rnd (pos_y pos - layer_y (App.layers s ! j))\<rparr>\<rparr> \<and>
            ((\<forall>k. i < k \<and> k < length (App.layers s) \<longrightarrow> \<not> boxContains rnd m (App.layers s ! k) pos)
               \<longrightarrow> j = i)"
    by blast
qed

text \<open>
  An image that is not decoded, below a text layer that lies elsewhere: the layer loop
  paints the text only, and a pointer-down inside the image's box selects the image.  Two
  such images over each other: a pointer-down inside the box of the first selects the
  second.
\<close>

theorem undecoded_image_skipped_but_hit_witness:
  "paintLayers exact (imageObjects imageBelowText) (App.layers imageBelowText) newContext =
     paintLayers exact (imageObjects imageBelowText) [Text defaultLayer] newContext \<and>
   dispatch (handleMouseDown exact exampleMeasure (Some exampleCanvas) \<lparr>clientX = 110, clientY = 110\<rparr>)
       imageBelowText =
     imageBelowText\<lparr>selectedLayerIndex := Some 0,
       dragInfo := \<lparr>isDragging = True, targetIndex = Some 0, startX = 10, startY = 10\<rparr>\<rparr> \<and>
   selectedLayerIndex
     (dispatch (handleMouseDown exact exampleMeasure (Some exampleCanvas) \<lparr>clientX = 110, clientY = 110\<rparr>)
        overlapping) = Some 1"
proof -
  have pos: "getMousePos exact exampleCanvas \<lparr>clientX = 110, clientY = 110\<rparr> = Some (Pos 110 110)"
    by (simp add: getMousePos_def exampleCanvas_def exact_def)
  have inside: "boxContains exact exampleMeasure (Image exampleImage) (Pos 110 110)"
    by (simp add: boxContains_def boundingBox_def exampleImage_def exact_def)
  have outside: "\<not> boxContains exact exampleMeasure (Text defaultLayer) (Pos 110 110)"
    by (simp add: boxContains_def boundingBox_def defaultLayer_def exampleMeasure_def exact_def)
  have h1: "0 < length (App.layers imageBelowText)" "App.layers imageBelowText ! 0 = Image exampleImage"
    "imageObjects imageBelowText (src exampleImage) = None"
    by (simp_all add: imageBelowText_def dragStart_def initialApp_def)
  have len1: "length (App.layers imageBelowText) = 2" and top1: "App.layers imageBelowText ! 1 = Text defaultLayer"
    by (simp_all add: imageBelowText_def)
  note t1 = undecoded_image_skipped_but_hit [OF h1, of exact newContext exampleCanvas
        "\<lparr>clientX = 110, clientY = 110\<rparr>" "Pos 110 110" exampleMeasure]
  have paint: "paintLayers exact (imageObjects imageBelowText) (App.layers imageBelowText) newContext =
     paintLayers exact (imageObjects imageBelowText) [Text defaultLayer] newContext"
    using t1 [THEN conjunct2, THEN conjunct1] by (simp add: imageBelowText_def)
  have none_later: "\<forall>k. 0 < k \<and> k < length (App.layers imageBelowText) \<longrightarrow>
      \<not> boxContains exact exampleMeasure (App.layers imageBelowText ! k) (Pos 110 110)"
    using outside top1 len1 by (auto simp: less_Suc_eq numeral_2_eq_2)
  from t1 [THEN conjunct2, THEN conjunct2] pos inside
  obtain j where j: "dispatch (handleMouseDown exact exampleMeasure (Some exampleCanvas) \<lparr>clientX = 110, clientY = 110\<rparr>)
       imageBelowText =
     imageBelowText\<lparr>selectedLayerIndex := Some j,
       dragInfo := \<lparr>isDragging = True, targetIndex = Some j,
                    startX = exact (pos_x (Pos 110 110) - layer_x (App.layers imageBelowText ! j)),
                    startY = exact (pos_y (Pos 110 110) - layer_y (App.layers imageBelowText ! j))\<rparr>\<rparr>"
    "(\<forall>k. 0 < k \<and> k < length (App.layers imageBelowText) \<longrightarrow>
      \<not> boxContains exact exampleMeasure (App.layers imageBelowText ! k) (Pos 110 110)) \<longrightarrow> j = 0"
    by blast
  from j(2) none_later have "j = 0" by blast
  with j(1) h1(2) have first: "dispatch (handleMouseDown exact exampleMeasure (Some exampleCanvas) \<lparr>clientX = 110, clientY = 110\<rparr>)
       imageBelowText =
     imageBelowText\<lparr>selectedLayerIndex := Some 0,
       dragInfo := \<lparr>isDragging = True, targetIndex = Some 0, startX = 10, startY = 10\<rparr>\<rparr>"
    by (simp add: exact_def exampleImage_def)
  have h2: "0 < length (App.layers overlapping)" "App.layers overlapping ! 0 = Image exampleImage"
    "imageObjects overlapping (src exampleImage) = None"
    by (simp_all add: overlapping_def dragStart_def initialApp_def)
  have len2: "length (App.layers overlapping) = 2"
    and top2: "boxContains exact exampleMeasure (App.layers overlapping ! 1) (Pos 110 110)"
    by (simp_all add: overlapping_def boxContains_def boundingBox_def exampleImage_def exact_def)
  note t2 = undecoded_image_skipped_but_hit [OF h2, of exact newContext exampleCanvas
        "\<lparr>clientX = 110, clientY = 110\<rparr>" "Pos 110 110" exampleMeasure]
  from t2 [THEN conjunct2, THEN conjunct2] pos inside
  obtain j' where j': "j' < length (App.layers overlapping)"
    "\<forall>k. j' < k \<and> k < length (App.layers overlapping) \<longrightarrow>
       \<not> boxContains exact exampleMeasure (App.layers overlapping ! k) (Pos 110 110)"
    "dispatch (handleMouseDown exact exampleMeasure (Some exampleCanvas) \<lparr>clientX = 110, clientY = 110\<rparr>)
       overlapping =
     overlapping\<lparr>selectedLayerIndex := Some j',
       dragInfo := \<lparr>isDragging = True, targetIndex = Some j',
                    startX = exact (pos_x (Pos 110 110) - layer_x (App.layers overlapping ! j')),
                    startY = exact (pos_y (Pos 110 110) - layer_y (App.layers overlapping ! j'))\<rparr>\<rparr>"
    by blast
  have "j' = 1"
  proof (rule ccontr)
    assume "j' \<noteq> 1"
    then have "j' < 1 \<and> 1 < length (App.layers overlapping)" using j'(1) len2 by simp
    then have "\<not> boxContains exact exampleMeasure (App.layers overlapping ! 1) (Pos 110 110)"
      using j'(2) by blast
    with top2 show False by simp
  qed
  with j'(3) have second: "selectedLayerIndex
     (dispatch (handleMouseDown exact exampleMeasure (Some exampleCanvas) \<lparr>clientX = 110, clientY = 110\<rparr>)
        overlapping) = Some 1"
    by simp
  from paint first second show ?thesis by blast
qed

text \<open>
  C10 as stated fails when a later layer lies over the point: of two image layers over
  each other, neither decoded, a pointer-down inside the box of the first selects the
  second.  Every number computed here is a small integer.
\<close>

theorem pointer_down_selects_later_layer:
  "App.layers overlapping ! 0 = Image exampleImage \<and>
   imageObjects overlapping (src exampleImage) = None \<and>
   boxContains exact exampleMeasure (Image exampleImage) (Pos 110 110) \<and>
   getMousePos exact exampleCanvas \<lparr>clientX = 110, clientY = 110\<rparr> = Some (Pos 110 110) \<and>
   selectedLayerIndex
     (dispatch (handleMouseDown exact exampleMeasure (Some exampleCanvas) \<lparr>clientX = 110, clientY = 110\<rparr>) overlapping)
     = Some 1"
  by (simp add: dispatch_def run_def handleMouseDown_def getMousePos_def exampleCanvas_def
      clickedLayer_def hit_def hitRect_def overlapping_def dragStart_def exampleImage_def Let_def
      initialApp_def boxContains_def boundingBox_def exact_def)

subsection \<open>Background modes\<close>

text \<open>
  C2, as amended.  The colour control stores the colour and clears the image reference, and
  the renderer then fills with that colour.  The image control stores the reference and
  leaves the colour in place; the renderer draws the image when the reference resolves in
  the cache, and fills with the colour as long as it does not.  In every state the
  background block makes exactly one call.
\<close>

theorem background_modes:
  "backgroundImage (dispatch (onBackgroundColorChange v) s) = None \<and>
   App.backgroundColor (dispatch (onBackgroundColorChange v) s) = v \<and>
   calls (paintBackground canvas (dispatch (onBackgroundColorChange v) s) ctx) =
     calls ctx @ [(FillRect 0 0 (HTMLCanvasElement.width canvas) (HTMLCanvasElement.height canvas),
                   (state ctx)\<lparr>fillStyle := v\<rparr>)] \<and>
   backgroundImage (dispatch (onBackgroundImageChange (Some uri)) s) = Some uri \<and>
   App.backgroundColor (dispatch (onBackgroundImageChange (Some uri)) s) = App.backgroundColor s \<and>
   (\<forall>img. uri \<noteq> [] \<and> imageObjects s uri = Some img \<longrightarrow>
      calls (paintBackground canvas (dispatch (onBackgroundImageChange (Some uri)) s) ctx) =
        calls ctx @ [(DrawImage img 0 0 (HTMLCanvasElement.width canvas) (HTMLCanvasElement.height canvas),
                      state ctx)]) \<and>
   (uri = [] \<or> imageObjects s uri = None \<longrightarrow>
      calls (paintBackground canvas (dispatch (onBackgroundImageChange (Some uri)) s) ctx) =
        calls ctx @ [(FillRect 0 0 (HTMLCanvasElement.width canvas) (HTMLCanvasElement.height canvas),
                      (state ctx)\<lparr>fillStyle := App.backgroundColor s\<rparr>)]) \<and>
   (\<exists>d. calls (paintBackground canvas s ctx) = calls ctx @ [d])"
  by (auto simp: dispatch_def run_def onBackgroundColorChange_def onBackgroundImageChange_def
      paintBackground_def call_def assign_def split: option.splits)

theorem background_modes_witness:
  "calls (paintBackground exampleCanvas
      (dispatch (onBackgroundImageChange (Some ''data:image/png;base64,AAAA''))
         ((initialApp Map.empty)\<lparr>imageObjects :=
            [''data:image/png;base64,AAAA'' \<mapsto> HTMLImageElement ''data:image/png;base64,AAAA'' 4 4]\<rparr>))
      newContext) =
     [(DrawImage (HTMLImageElement ''data:image/png;base64,AAAA'' 4 4) 0 0 1280 720, state newContext)] \<and>
   calls (paintBackground exampleCanvas
      (dispatch (onBackgroundImageChange (Some '''')) (initialApp Map.empty)) newContext) =
     [(FillRect 0 0 1280 720, (state newContext)\<lparr>fillStyle := ''#1a1a1a''\<rparr>)]"
  using background_modes [of "''#000000''"
      "(initialApp Map.empty)\<lparr>imageObjects :=
            [''data:image/png;base64,AAAA'' \<mapsto> HTMLImageElement ''data:image/png;base64,AAAA'' 4 4]\<rparr>"
      exampleCanvas newContext "''data:image/png;base64,AAAA''"]
    background_modes [of "''#000000''" "initialApp Map.empty" exampleCanvas newContext "''''"]
  by (simp add: initialApp_def exampleCanvas_def newContext_def)

text \<open>
  C2 as stated fails: right after a background image is chosen, its reference is not in
  the cache, and the renderer fills the canvas with the solid colour.
\<close>

theorem background_image_not_decoded_paints_color:
  "calls (paintBackground exampleCanvas
      (dispatch (onBackgroundImageChange (Some ''data:image/png;base64,AAAA'')) (initialApp Map.empty))
      newContext) =
   [(FillRect 0 0 1280 720, (state newContext)\<lparr>fillStyle := ''#1a1a1a''\<rparr>)]"
  by (simp add: dispatch_def run_def onBackgroundImageChange_def paintBackground_def initialApp_def
      call_def assign_def exampleCanvas_def newContext_def)

end
